theory Spec2Isabelle
  imports Complex_Main "HOL-Library.AList"
begin

section \<open>Python values, exceptions and builtins\<close>

text \<open>
  The exceptions that the code of \<^verbatim>\<open>main.py\<close> and the builtins it calls can raise.
  \<open>RequestException\<close> stands for \<^verbatim>\<open>requests.RequestException\<close> and its subclasses
  and carries the text that \<^verbatim>\<open>str(e)\<close> gives.
\<close>

datatype py_error =
  KeyError | TypeError | IndexError | ValueError | OverflowError | ZeroDivisionError
  | RequestException string

text \<open>
  A decoded JSON document, as \<^verbatim>\<open>response.json()\<close> returns it: \<^verbatim>\<open>None\<close>, a
  \<^verbatim>\<open>bool\<close>, an \<^verbatim>\<open>int\<close>, a \<^verbatim>\<open>str\<close>, a \<^verbatim>\<open>list\<close> or a \<^verbatim>\<open>dict\<close> with string
  keys, in insertion order and with one entry per key. JSON numbers with a fraction or
  an exponent (Python floats) are not part of this type; the statistics API sends every
  number as a string.
\<close>

datatype json =
  JNull | JBool bool | JInt int | JStr string
  | JArr "json list" | JObj "(string \<times> json) list"

text \<open>
  Python floats are an abstract type \<open>'f\<close>. The two ways the program makes one are
  parameters: \<open>float_of_str\<close> is \<^verbatim>\<open>float(s)\<close> on a string (\<open>None\<close> where it raises
  \<^verbatim>\<open>ValueError\<close>), and \<open>float_of_rat\<close> is the correctly rounded double of an exact
  rational, which is what both \<^verbatim>\<open>float(n)\<close> and \<^verbatim>\<open>a / b\<close> on integers return
  (\<open>None\<close> where the result is too large and they raise \<^verbatim>\<open>OverflowError\<close>).
  \<open>int_of_str\<close> is \<^verbatim>\<open>int(s)\<close> on a string (\<open>None\<close> where it raises
  \<^verbatim>\<open>ValueError\<close>).
\<close>

record 'f builtins =
  int_of_str :: "string \<Rightarrow> int option"
  float_of_str :: "string \<Rightarrow> 'f option"
  float_of_rat :: "rat \<Rightarrow> 'f option"

datatype 'f pynum = PyInt int | PyFloat 'f

definition bind_err :: "'e + 'a \<Rightarrow> ('a \<Rightarrow> 'e + 'b) \<Rightarrow> 'e + 'b" where
  "bind_err m f = (case m of Inl e \<Rightarrow> Inl e | Inr x \<Rightarrow> f x)"

text \<open>A list comprehension whose element expression may raise.\<close>

fun map_err :: "('a \<Rightarrow> 'e + 'b) \<Rightarrow> 'a list \<Rightarrow> 'e + 'b list" where
  "map_err f [] = Inr []"
| "map_err f (x # xs) =
     (case f x of
        Inl e \<Rightarrow> Inl e
      | Inr y \<Rightarrow> (case map_err f xs of Inl e \<Rightarrow> Inl e | Inr ys \<Rightarrow> Inr (y # ys)))"

text \<open>A \<^verbatim>\<open>for\<close> loop that updates a local and whose body may raise.\<close>

fun fold_err :: "('a \<Rightarrow> 's \<Rightarrow> 'e + 's) \<Rightarrow> 'a list \<Rightarrow> 's \<Rightarrow> 'e + 's" where
  "fold_err f [] s = Inr s"
| "fold_err f (x # xs) s =
     (case f x s of Inl e \<Rightarrow> Inl e | Inr s' \<Rightarrow> fold_err f xs s')"

text \<open>\<^verbatim>\<open>int(x)\<close> on a decoded JSON value.\<close>

definition py_int :: "'f builtins \<Rightarrow> json \<Rightarrow> py_error + int" where
  "py_int B j =
     (case j of
        JStr s \<Rightarrow> (case int_of_str B s of None \<Rightarrow> Inl ValueError | Some n \<Rightarrow> Inr n)
      | JInt n \<Rightarrow> Inr n
      | JBool b \<Rightarrow> Inr (if b then 1 else 0)
      | _ \<Rightarrow> Inl TypeError)"

text \<open>\<^verbatim>\<open>float(x)\<close> on a decoded JSON value.\<close>

definition py_float :: "'f builtins \<Rightarrow> json \<Rightarrow> py_error + 'f" where
  "py_float B j =
     (case j of
        JStr s \<Rightarrow> (case float_of_str B s of None \<Rightarrow> Inl ValueError | Some x \<Rightarrow> Inr x)
      | JInt n \<Rightarrow>
          (case float_of_rat B (of_int n) of None \<Rightarrow> Inl OverflowError | Some x \<Rightarrow> Inr x)
      | JBool b \<Rightarrow>
          (case float_of_rat B (if b then 1 else 0) of
             None \<Rightarrow> Inl OverflowError | Some x \<Rightarrow> Inr x)
      | _ \<Rightarrow> Inl TypeError)"

text \<open>\<^verbatim>\<open>a / b\<close> on two integers.\<close>

definition py_truediv :: "'f builtins \<Rightarrow> int \<Rightarrow> int \<Rightarrow> py_error + 'f" where
  "py_truediv B a b =
     (if b = 0 then Inl ZeroDivisionError
      else (case float_of_rat B (of_int a / of_int b) of
              None \<Rightarrow> Inl OverflowError | Some x \<Rightarrow> Inr x))"

text \<open>\<^verbatim>\<open>x[k]\<close> with a string \<open>k\<close>: only a dict can be subscripted by a string.\<close>

definition getitem :: "json \<Rightarrow> string \<Rightarrow> py_error + json" where
  "getitem j k =
     (case j of
        JObj kvs \<Rightarrow> (case map_of kvs k of None \<Rightarrow> Inl KeyError | Some v \<Rightarrow> Inr v)
      | _ \<Rightarrow> Inl TypeError)"

text \<open>
  \<^verbatim>\<open>x[0]\<close>: the first element of a list, the first character of a string, and a
  \<^verbatim>\<open>KeyError\<close> on a dict (whose keys are all strings).
\<close>

definition getitem0 :: "json \<Rightarrow> py_error + json" where
  "getitem0 j =
     (case j of
        JArr xs \<Rightarrow> (case xs of [] \<Rightarrow> Inl IndexError | x # _ \<Rightarrow> Inr x)
      | JStr s \<Rightarrow> (case s of [] \<Rightarrow> Inl IndexError | c # _ \<Rightarrow> Inr (JStr [c]))
      | JObj kvs \<Rightarrow> Inl KeyError
      | _ \<Rightarrow> Inl TypeError)"

text \<open>
  What \<^verbatim>\<open>for x in j\<close> iterates over: the elements of a list, the keys of a dict,
  the characters of a string.
\<close>

definition py_iter :: "json \<Rightarrow> py_error + json list" where
  "py_iter j =
     (case j of
        JArr xs \<Rightarrow> Inr xs
      | JObj kvs \<Rightarrow> Inr (map (\<lambda>kv. JStr (fst kv)) kvs)
      | JStr s \<Rightarrow> Inr (map (\<lambda>c. JStr [c]) s)
      | _ \<Rightarrow> Inl TypeError)"

text \<open>
  \<^verbatim>\<open>str.isdigit()\<close>: a non-empty string of digit characters. A \<open>char\<close> is read as a
  code point below 256; the digits there are \<^verbatim>\<open>0\<close> to \<^verbatim>\<open>9\<close> and the superscripts
  U+00B2, U+00B3 and U+00B9.
\<close>

definition isdigit_char :: "char \<Rightarrow> bool" where
  "isdigit_char c \<longleftrightarrow> c \<in> set ''0123456789'' \<or> c \<in> {CHR 0xB2, CHR 0xB3, CHR 0xB9}"

definition isdigit :: "string \<Rightarrow> bool" where
  "isdigit s \<longleftrightarrow> s \<noteq> [] \<and> list_all isdigit_char s"

subsection \<open>Dicts keyed by decoded JSON values\<close>

text \<open>
  Lists and dicts are not hashable: using one as a dict key raises \<^verbatim>\<open>TypeError\<close>.
  Among the hashable values, \<^verbatim>\<open>True == 1\<close> and \<^verbatim>\<open>False == 0\<close> (with equal hashes),
  so a bool and the integer it equals are the same key.
\<close>

definition py_hashable :: "json \<Rightarrow> bool" where
  "py_hashable j = (case j of JArr _ \<Rightarrow> False | JObj _ \<Rightarrow> False | _ \<Rightarrow> True)"

definition py_key :: "json \<Rightarrow> json" where
  "py_key j = (case j of JBool b \<Rightarrow> JInt (if b then 1 else 0) | _ \<Rightarrow> j)"

definition py_eq :: "json \<Rightarrow> json \<Rightarrow> bool" where
  "py_eq x y \<longleftrightarrow> py_key x = py_key y"

text \<open>
  A Python dict in insertion order. \<open>dict_get d k\<close> is \<^verbatim>\<open>d.get(k)\<close>; \<open>dict_set k v d\<close>
  is \<^verbatim>\<open>d[k] = v\<close>, which keeps the position and the key object of an entry whose
  key equals \<open>k\<close> and appends a new entry otherwise.
\<close>

fun dict_get :: "(json \<times> 'v) list \<Rightarrow> json \<Rightarrow> 'v option" where
  "dict_get [] k = None"
| "dict_get (kv # d) k = (if py_eq (fst kv) k then Some (snd kv) else dict_get d k)"

fun dict_set :: "json \<Rightarrow> 'v \<Rightarrow> (json \<times> 'v) list \<Rightarrow> (json \<times> 'v) list" where
  "dict_set k v [] = [(k, v)]"
| "dict_set k v (kv # d) =
     (if py_eq (fst kv) k then (fst kv, v) # d else kv # dict_set k v d)"

section \<open>Application state\<close>

text \<open>
  The axes \<^verbatim>\<open>self.ax\<close>: the bar series drawn into them since the last
  \<^verbatim>\<open>clear()\<close>, the title, the axis labels and the rotation of the x tick labels.
  The plotting library is not part of the repository; its calls are modelled as
  recording their arguments.
\<close>

record 'f axes =
  bars :: "(json list \<times> 'f pynum list) list"
  title :: string
  xlabel :: string
  ylabel :: string
  xtick_rotation :: int

definition empty_axes :: "'f axes" where
  "empty_axes = \<lparr>bars = [], title = [], xlabel = [], ylabel = [], xtick_rotation = 0\<rparr>"

text \<open>What the program does to the outside, in order.\<close>

datatype event =
  ShowError string string | ShowInfo string string | HttpGet string | CanvasDraw

text \<open>
  \<open>data\<close> is \<^verbatim>\<open>self.data\<close>, \<open>chart_type\<close> and \<open>season_entry\<close> are what the two
  widgets return from \<^verbatim>\<open>get()\<close>, \<open>canvas\<close> is what the last \<^verbatim>\<open>canvas.draw()\<close> put on
  the screen, and \<open>trace\<close> lists the message boxes, requests and draws so far.
\<close>

record 'f app =
  data :: "(string \<times> json) list"
  chart_type :: string
  season_entry :: string
  ax :: "'f axes"
  canvas :: "'f axes"
  trace :: "event list"

definition init_app :: "'f app" where
  "init_app =
     \<lparr>data = [], chart_type = ''Total Points Distribution'', season_entry = [],
      ax = empty_axes, canvas = empty_axes, trace = []\<rparr>"

definition emit :: "event \<Rightarrow> 'f app \<Rightarrow> 'f app" where
  "emit ev s = s\<lparr>trace := trace s @ [ev]\<rparr>"

text \<open>\<^verbatim>\<open>self.data[k]\<close>.\<close>

definition data_get :: "(string \<times> json) list \<Rightarrow> string \<Rightarrow> py_error + json" where
  "data_get d k = (case map_of d k of None \<Rightarrow> Inl KeyError | Some v \<Rightarrow> Inr v)"

section \<open>Fetching\<close>

text \<open>
  The network answers a GET either with a transport failure (its text) or with a
  response: the status code, the text the client library reports when it turns this
  response into an exception, and the decoded body (\<open>None\<close> when the body is not JSON).
\<close>

datatype response = ConnectionFailed string | HttpResponse nat string "json option"

text \<open>
  \<^verbatim>\<open>requests.get(url)\<close>, \<^verbatim>\<open>raise_for_status()\<close> (which raises for 4xx and 5xx) and
  \<^verbatim>\<open>json()\<close>, whose decoding error is a \<^verbatim>\<open>RequestException\<close> too.
\<close>

definition get_json :: "(string \<Rightarrow> response) \<Rightarrow> string \<Rightarrow> py_error + json" where
  "get_json net url =
     (case net url of
        ConnectionFailed msg \<Rightarrow> Inl (RequestException msg)
      | HttpResponse status msg body \<Rightarrow>
          if 400 \<le> status \<and> status < 600 then Inl (RequestException msg)
          else (case body of None \<Rightarrow> Inl (RequestException msg) | Some j \<Rightarrow> Inr j))"

text \<open>One of the three blocks of \<^verbatim>\<open>fetch_data\<close>: request, check, decode, store.\<close>

definition fetch_into ::
  "(string \<Rightarrow> response) \<Rightarrow> string \<Rightarrow> string \<Rightarrow> 'f app \<Rightarrow> 'f app \<times> py_error option" where
  "fetch_into net url key s =
     (let s1 = emit (HttpGet url) s in
      case get_json net url of
        Inl e \<Rightarrow> (s1, Some e)
      | Inr j \<Rightarrow> (s1\<lparr>data := AList.update key j (data s1)\<rparr>, None))"

definition standings_url :: "string \<Rightarrow> string" where
  "standings_url season = ''https://ergast.com/api/f1/'' @ season @ ''/driverStandings.json''"

definition results_url :: "string \<Rightarrow> string" where
  "results_url season = ''https://ergast.com/api/f1/'' @ season @ ''/results.json?limit=1000''"

definition constructor_standings_url :: "string \<Rightarrow> string" where
  "constructor_standings_url season =
     ''https://ergast.com/api/f1/'' @ season @ ''/constructorStandings.json''"

text \<open>The body of the \<^verbatim>\<open>try\<close> of \<^verbatim>\<open>fetch_data\<close>.\<close>

definition fetch_body ::
  "(string \<Rightarrow> response) \<Rightarrow> string \<Rightarrow> 'f app \<Rightarrow> 'f app \<times> py_error option" where
  "fetch_body net season s =
     (case fetch_into net (standings_url season) ''standings'' s of
        (s1, Some e) \<Rightarrow> (s1, Some e)
      | (s1, None) \<Rightarrow>
     (case fetch_into net (results_url season) ''results'' s1 of
        (s2, Some e) \<Rightarrow> (s2, Some e)
      | (s2, None) \<Rightarrow>
     (case fetch_into net (constructor_standings_url season) ''constructor_standings'' s2 of
        (s3, Some e) \<Rightarrow> (s3, Some e)
      | (s3, None) \<Rightarrow> (emit (ShowInfo ''Success'' ''Data fetched successfully!'') s3, None))))"

text \<open>
  \<^verbatim>\<open>fetch_data\<close>: the state afterwards and the exception that leaves the method, if
  any. Only a \<^verbatim>\<open>RequestException\<close> is caught.
\<close>

definition fetch_data :: "(string \<Rightarrow> response) \<Rightarrow> 'f app \<Rightarrow> 'f app \<times> py_error option" where
  "fetch_data net s =
     (let season = season_entry s in
      if \<not> isdigit season then
        (emit (ShowError ''Error'' ''Please enter a valid season year.'') s, None)
      else
        (case fetch_body net season s of
           (s', Some (RequestException msg)) \<Rightarrow>
             (emit (ShowError ''Error'' (''Failed to fetch data: '' @ msg)) s', None)
         | (s', exc) \<Rightarrow> (s', exc)))"

section \<open>The five aggregations\<close>

text \<open>\<^verbatim>\<open>x['Driver']['familyName']\<close>.\<close>

definition family_name :: "json \<Rightarrow> py_error + json" where
  "family_name x = bind_err (getitem x ''Driver'') (\<lambda>d. getitem d ''familyName'')"

text \<open>\<^verbatim>\<open>float(x['points'])\<close>.\<close>

definition points_of :: "'f builtins \<Rightarrow> json \<Rightarrow> py_error + 'f" where
  "points_of B x = bind_err (getitem x ''points'') (py_float B)"

text \<open>
  \<^verbatim>\<open>self.data['standings']['MRData']['StandingsTable']['StandingsLists'][0]\<close>
  \<^verbatim>\<open>['DriverStandings']\<close>, and what iterating over it yields.
\<close>

definition driver_standings :: "(string \<times> json) list \<Rightarrow> py_error + json list" where
  "driver_standings d =
     bind_err (data_get d ''standings'') (\<lambda>j.
     bind_err (getitem j ''MRData'') (\<lambda>j.
     bind_err (getitem j ''StandingsTable'') (\<lambda>j.
     bind_err (getitem j ''StandingsLists'') (\<lambda>j.
     bind_err (getitem0 j) (\<lambda>j.
     bind_err (getitem j ''DriverStandings'') py_iter)))))"

text \<open>Lines 83 to 85 of \<^verbatim>\<open>plot_total_points_distribution\<close>.\<close>

definition total_points_series ::
  "'f builtins \<Rightarrow> (string \<times> json) list \<Rightarrow> py_error + (json list \<times> 'f pynum list)" where
  "total_points_series B d =
     bind_err (driver_standings d) (\<lambda>standings.
     bind_err (map_err family_name standings) (\<lambda>drivers.
     bind_err (map_err (points_of B) standings) (\<lambda>points.
     Inr (drivers, map PyFloat points))))"

text \<open>\<^verbatim>\<open>self.data['results']['MRData']['RaceTable']['Races']\<close>, iterated.\<close>

definition races_of :: "(string \<times> json) list \<Rightarrow> py_error + json list" where
  "races_of d =
     bind_err (data_get d ''results'') (\<lambda>j.
     bind_err (getitem j ''MRData'') (\<lambda>j.
     bind_err (getitem j ''RaceTable'') (\<lambda>j.
     bind_err (getitem j ''Races'') py_iter)))"

text \<open>\<^verbatim>\<open>race['Results']\<close>, iterated.\<close>

definition race_results :: "json \<Rightarrow> py_error + json list" where
  "race_results race = bind_err (getitem race ''Results'') py_iter"

text \<open>\<^verbatim>\<open>int(result['position'])\<close>.\<close>

definition position_of :: "'f builtins \<Rightarrow> json \<Rightarrow> py_error + int" where
  "position_of B result = bind_err (getitem result ''position'') (py_int B)"

text \<open>Using \<open>k\<close> as a dict key hashes it first.\<close>

definition as_key :: "json \<Rightarrow> py_error + json" where
  "as_key k = (if py_hashable k then Inr k else Inl TypeError)"

text \<open>
  Lines 99 to 101 of \<^verbatim>\<open>plot_average_finish_position_by_driver\<close>: the driver, then
  the position, then the membership test that hashes the driver.
\<close>

definition finish_observation :: "'f builtins \<Rightarrow> json \<Rightarrow> py_error + (json \<times> int)" where
  "finish_observation B result =
     bind_err (family_name result) (\<lambda>driver.
     bind_err (position_of B result) (\<lambda>position.
     bind_err (as_key driver) (\<lambda>driver.
     Inr (driver, position))))"

text \<open>
  Lines 101 to 103: a driver not yet in the dict gets a new list, which then receives
  the position; a driver already there has the position appended to the stored list.
\<close>

definition record_position ::
  "json \<times> int \<Rightarrow> (json \<times> int list) list \<Rightarrow> (json \<times> int list) list" where
  "record_position obs fp =
     (case dict_get fp (fst obs) of
        None \<Rightarrow> dict_set (fst obs) [snd obs] fp
      | Some ps \<Rightarrow> dict_set (fst obs) (ps @ [snd obs]) fp)"

text \<open>The two nested loops of lines 97 to 103.\<close>

definition finish_positions ::
  "'f builtins \<Rightarrow> json list \<Rightarrow> py_error + (json \<times> int list) list" where
  "finish_positions B races =
     fold_err (\<lambda>race fp.
       bind_err (race_results race) (\<lambda>results.
       fold_err (\<lambda>result fp.
         bind_err (finish_observation B result) (\<lambda>obs. Inr (record_position obs fp)))
         results fp))
       races []"

text \<open>\<^verbatim>\<open>sum(positions) / len(positions)\<close>.\<close>

definition average :: "'f builtins \<Rightarrow> int list \<Rightarrow> py_error + 'f" where
  "average B positions = py_truediv B (sum_list positions) (int (length positions))"

text \<open>Lines 94 to 106 of \<^verbatim>\<open>plot_average_finish_position_by_driver\<close>.\<close>

definition average_finish_series ::
  "'f builtins \<Rightarrow> (string \<times> json) list \<Rightarrow> py_error + (json list \<times> 'f pynum list)" where
  "average_finish_series B d =
     bind_err (races_of d) (\<lambda>races.
     bind_err (finish_positions B races) (\<lambda>fp.
     bind_err (map_err (average B) (map snd fp)) (\<lambda>avg_positions.
     Inr (map fst fp, map PyFloat avg_positions))))"

text \<open>\<^verbatim>\<open>counts[k] = counts.get(k, 0) + 1\<close>.\<close>

definition count_up :: "json \<Rightarrow> (json \<times> int) list \<Rightarrow> (json \<times> int) list" where
  "count_up k counts =
     dict_set k ((case dict_get counts k of None \<Rightarrow> 0 | Some c \<Rightarrow> c) + 1) counts"

text \<open>Lines 119 to 121 of \<^verbatim>\<open>plot_most_wins_by_driver\<close>, up to the hashing of the key.\<close>

definition winner_of :: "json \<Rightarrow> py_error + json" where
  "winner_of race =
     bind_err (getitem race ''Results'') (\<lambda>results.
     bind_err (getitem0 results) (\<lambda>winner.
     bind_err (family_name winner) as_key))"

definition win_counts :: "json list \<Rightarrow> py_error + (json \<times> int) list" where
  "win_counts races =
     fold_err (\<lambda>race counts.
       bind_err (winner_of race) (\<lambda>driver. Inr (count_up driver counts)))
       races []"

text \<open>Lines 115 to 124 of \<^verbatim>\<open>plot_most_wins_by_driver\<close>.\<close>

definition most_wins_series ::
  "(string \<times> json) list \<Rightarrow> py_error + (json list \<times> 'f pynum list)" where
  "most_wins_series d =
     bind_err (races_of d) (\<lambda>races.
     bind_err (win_counts races) (\<lambda>counts.
     Inr (map fst counts, map (\<lambda>kv. PyInt (snd kv)) counts)))"

text \<open>
  \<^verbatim>\<open>self.data['constructor_standings']['MRData']['StandingsTable']['StandingsLists'][0]\<close>
  \<^verbatim>\<open>['ConstructorStandings']\<close>, iterated.
\<close>

definition constructor_standings :: "(string \<times> json) list \<Rightarrow> py_error + json list" where
  "constructor_standings d =
     bind_err (data_get d ''constructor_standings'') (\<lambda>j.
     bind_err (getitem j ''MRData'') (\<lambda>j.
     bind_err (getitem j ''StandingsTable'') (\<lambda>j.
     bind_err (getitem j ''StandingsLists'') (\<lambda>j.
     bind_err (getitem0 j) (\<lambda>j.
     bind_err (getitem j ''ConstructorStandings'') py_iter)))))"

text \<open>\<^verbatim>\<open>x['Constructor']['name']\<close>.\<close>

definition constructor_name :: "json \<Rightarrow> py_error + json" where
  "constructor_name x = bind_err (getitem x ''Constructor'') (\<lambda>c. getitem c ''name'')"

text \<open>Lines 133 to 135 of \<^verbatim>\<open>plot_constructor_championship_standings\<close>.\<close>

definition constructor_series ::
  "'f builtins \<Rightarrow> (string \<times> json) list \<Rightarrow> py_error + (json list \<times> 'f pynum list)" where
  "constructor_series B d =
     bind_err (constructor_standings d) (\<lambda>standings.
     bind_err (map_err constructor_name standings) (\<lambda>constructors.
     bind_err (map_err (points_of B) standings) (\<lambda>points.
     Inr (constructors, map PyFloat points))))"

text \<open>
  Lines 149 to 152 of \<^verbatim>\<open>plot_podium_finishes_by_driver\<close>: the position first; the
  driver is looked up (and hashed) only when the position is at most 3.
\<close>

definition podium_observation :: "'f builtins \<Rightarrow> json \<Rightarrow> py_error + json option" where
  "podium_observation B result =
     bind_err (position_of B result) (\<lambda>position.
     if position \<le> 3 then
       bind_err (family_name result) (\<lambda>driver.
       bind_err (as_key driver) (\<lambda>driver. Inr (Some driver)))
     else Inr None)"

definition podium_counts :: "'f builtins \<Rightarrow> json list \<Rightarrow> py_error + (json \<times> int) list" where
  "podium_counts B races =
     fold_err (\<lambda>race counts.
       bind_err (race_results race) (\<lambda>results.
       fold_err (\<lambda>result counts.
         bind_err (podium_observation B result) (\<lambda>obs.
           case obs of None \<Rightarrow> Inr counts | Some driver \<Rightarrow> Inr (count_up driver counts)))
         results counts))
       races []"

text \<open>Lines 144 to 155 of \<^verbatim>\<open>plot_podium_finishes_by_driver\<close>.\<close>

definition podium_series ::
  "'f builtins \<Rightarrow> (string \<times> json) list \<Rightarrow> py_error + (json list \<times> 'f pynum list)" where
  "podium_series B d =
     bind_err (races_of d) (\<lambda>races.
     bind_err (podium_counts B races) (\<lambda>counts.
     Inr (map fst counts, map (\<lambda>kv. PyInt (snd kv)) counts)))"

section \<open>Drawing\<close>

text \<open>
  \<^verbatim>\<open>ax.bar(labels, values)\<close> followed by \<^verbatim>\<open>set_title\<close>, \<^verbatim>\<open>set_xlabel\<close>,
  \<^verbatim>\<open>set_ylabel\<close> and \<^verbatim>\<open>tick_params(axis='x', rotation=90)\<close>.
\<close>

definition draw_bars ::
  "json list \<times> 'f pynum list \<Rightarrow> string \<Rightarrow> string \<Rightarrow> string \<Rightarrow> 'f axes \<Rightarrow> 'f axes" where
  "draw_bars series t xl yl a =
     a\<lparr>bars := bars a @ [series], title := t, xlabel := xl, ylabel := yl,
       xtick_rotation := 90\<rparr>"

text \<open>
  A plot method computes its series first; an exception there leaves the axes as they
  were.
\<close>

definition plot ::
  "py_error + (json list \<times> 'f pynum list) \<Rightarrow> string \<Rightarrow> string \<Rightarrow> string \<Rightarrow> 'f app
     \<Rightarrow> 'f app \<times> py_error option" where
  "plot series t xl yl s =
     (case series of
        Inl e \<Rightarrow> (s, Some e)
      | Inr ser \<Rightarrow> (s\<lparr>ax := draw_bars ser t xl yl (ax s)\<rparr>, None))"

definition plot_total_points_distribution ::
  "'f builtins \<Rightarrow> 'f app \<Rightarrow> 'f app \<times> py_error option" where
  "plot_total_points_distribution B s =
     plot (total_points_series B (data s))
       ''Total Points Distribution'' ''Driver'' ''Total Points'' s"

definition plot_average_finish_position_by_driver ::
  "'f builtins \<Rightarrow> 'f app \<Rightarrow> 'f app \<times> py_error option" where
  "plot_average_finish_position_by_driver B s =
     plot (average_finish_series B (data s))
       ''Average Finish Position by Driver'' ''Driver'' ''Average Finish Position'' s"

definition plot_most_wins_by_driver :: "'f app \<Rightarrow> 'f app \<times> py_error option" where
  "plot_most_wins_by_driver s =
     plot (most_wins_series (data s)) ''Most Wins by Driver'' ''Driver'' ''Wins'' s"

definition plot_constructor_championship_standings ::
  "'f builtins \<Rightarrow> 'f app \<Rightarrow> 'f app \<times> py_error option" where
  "plot_constructor_championship_standings B s =
     plot (constructor_series B (data s))
       ''Constructor Championship Standings'' ''Constructor'' ''Points'' s"

definition plot_podium_finishes_by_driver ::
  "'f builtins \<Rightarrow> 'f app \<Rightarrow> 'f app \<times> py_error option" where
  "plot_podium_finishes_by_driver B s =
     plot (podium_series B (data s))
       ''Podium Finishes by Driver'' ''Driver'' ''Podium Finishes'' s"

text \<open>The \<^verbatim>\<open>if\<close>/\<^verbatim>\<open>elif\<close> chain of \<^verbatim>\<open>update_chart\<close>; it has no \<^verbatim>\<open>else\<close>.\<close>

definition dispatch :: "'f builtins \<Rightarrow> string \<Rightarrow> 'f app \<Rightarrow> 'f app \<times> py_error option" where
  "dispatch B ct s =
     (if ct = ''Total Points Distribution'' then plot_total_points_distribution B s
      else if ct = ''Average Finish Position by Driver'' then
        plot_average_finish_position_by_driver B s
      else if ct = ''Most Wins by Driver'' then plot_most_wins_by_driver s
      else if ct = ''Constructor Championship Standings'' then
        plot_constructor_championship_standings B s
      else if ct = ''Podium Finishes by Driver'' then plot_podium_finishes_by_driver B s
      else (s, None))"

text \<open>
  \<^verbatim>\<open>update_chart\<close>: the state afterwards and the exception that leaves the method, if
  any. The method has no \<^verbatim>\<open>try\<close>: an exception of a plot method leaves it after
  \<^verbatim>\<open>self.ax.clear()\<close> and before \<^verbatim>\<open>self.canvas.draw()\<close>.
\<close>

definition update_chart :: "'f builtins \<Rightarrow> 'f app \<Rightarrow> 'f app \<times> py_error option" where
  "update_chart B s =
     (let ct = chart_type s in
      if data s = [] then
        (emit (ShowError ''Error'' ''No data available. Please fetch data first.'') s, None)
      else
        (case dispatch B ct (s\<lparr>ax := empty_axes\<rparr>) of
           (s', Some e) \<Rightarrow> (s', Some e)
         | (s', None) \<Rightarrow> (emit CanvasDraw (s'\<lparr>canvas := ax s'\<rparr>), None)))"

section \<open>Reference notions for the properties\<close>

text \<open>
  First-seen order: the keys \<open>ks\<close> in the order of their first occurrences, one for each
  class of equal keys, skipping those equal to a key in \<open>seen\<close>.
\<close>

fun first_seen_from :: "json list \<Rightarrow> json list \<Rightarrow> json list" where
  "first_seen_from seen [] = []"
| "first_seen_from seen (k # ks) =
     (if list_ex (\<lambda>a. py_eq a k) seen then first_seen_from seen ks
      else k # first_seen_from (seen @ [k]) ks)"

definition first_seen :: "json list \<Rightarrow> json list" where
  "first_seen ks = first_seen_from [] ks"

text \<open>How often a key equal to \<open>k\<close> occurs in \<open>ks\<close>.\<close>

definition occurrences :: "json list \<Rightarrow> json \<Rightarrow> int" where
  "occurrences ks k = int (length (filter (\<lambda>a. py_eq a k) ks))"

text \<open>The positions observed for the driver \<open>k\<close>, in the order of the observations.\<close>

definition positions_for :: "(json \<times> int) list \<Rightarrow> json \<Rightarrow> int list" where
  "positions_for obs k = map snd (filter (\<lambda>ob. py_eq (fst ob) k) obs)"

text \<open>All results of all races, in payload order.\<close>

definition all_results :: "(string \<times> json) list \<Rightarrow> py_error + json list" where
  "all_results d =
     bind_err (races_of d) (\<lambda>races.
     bind_err (map_err race_results races) (\<lambda>rss. Inr (concat rss)))"

text \<open>The (driver, position) pair of every result, in payload order.\<close>

definition finish_observations ::
  "'f builtins \<Rightarrow> (string \<times> json) list \<Rightarrow> py_error + (json \<times> int) list" where
  "finish_observations B d = bind_err (all_results d) (map_err (finish_observation B))"

text \<open>
  For every result in payload order, the driver it counts for, or \<open>None\<close> when it is
  not counted.
\<close>

definition podium_observations ::
  "'f builtins \<Rightarrow> (string \<times> json) list \<Rightarrow> py_error + json option list" where
  "podium_observations B d = bind_err (all_results d) (map_err (podium_observation B))"

definition counted :: "json option list \<Rightarrow> json list" where
  "counted obs = concat (map (\<lambda>ob. case ob of None \<Rightarrow> [] | Some k \<Rightarrow> [k]) obs)"

text \<open>The results \<open>rs\<close> whose position, listed in \<open>ps\<close>, is at most 3.\<close>

definition qualifying :: "json list \<Rightarrow> int list \<Rightarrow> json list" where
  "qualifying rs ps = map fst (filter (\<lambda>rp. snd rp \<le> 3) (zip rs ps))"

text \<open>The winner of every race, in payload order.\<close>

definition winners :: "(string \<times> json) list \<Rightarrow> py_error + json list" where
  "winners d = bind_err (races_of d) (map_err winner_of)"

text \<open>
  The spec's wording of the season invariant, "parses as a positive integer": a plain
  decimal numeral whose value is positive.
\<close>

definition decimal :: "string \<Rightarrow> nat option" where
  "decimal s =
     (if s \<noteq> [] \<and> list_all (\<lambda>c. c \<in> set ''0123456789'') s
      then Some (foldl (\<lambda>n c. 10 * n + (of_char c - 48)) 0 s) else None)"

definition spec_positive_integer :: "string \<Rightarrow> bool" where
  "spec_positive_integer s = (case decimal s of None \<Rightarrow> False | Some n \<Rightarrow> 0 < n)"

subsection \<open>Concrete inputs\<close>

text \<open>
  An instance of the builtins for evaluating the program on concrete inputs: floats
  are exact rationals, and \<^verbatim>\<open>int\<close> and \<^verbatim>\<open>float\<close> read plain decimal numerals and
  reject every other string.
\<close>

definition plain_builtins :: "rat builtins" where
  "plain_builtins =
     \<lparr>int_of_str = (\<lambda>s. map_option int (decimal s)),
      float_of_str = (\<lambda>s. map_option of_nat (decimal s)),
      float_of_rat = Some\<rparr>"

text \<open>Payloads in the shape the API sends.\<close>

definition standing :: "string \<Rightarrow> string \<Rightarrow> json" where
  "standing name pts =
     JObj [(''points'', JStr pts), (''Driver'', JObj [(''familyName'', JStr name)])]"

definition standings_payload :: "json list \<Rightarrow> json" where
  "standings_payload entries =
     JObj [(''MRData'', JObj [(''StandingsTable'', JObj [(''StandingsLists'',
       JArr [JObj [(''DriverStandings'', JArr entries)]])])])]"

definition result :: "string \<Rightarrow> string \<Rightarrow> json" where
  "result name pos =
     JObj [(''position'', JStr pos), (''Driver'', JObj [(''familyName'', JStr name)])]"

definition results_payload :: "json list list \<Rightarrow> json" where
  "results_payload races =
     JObj [(''MRData'', JObj [(''RaceTable'', JObj [(''Races'',
       JArr (map (\<lambda>rs. JObj [(''Results'', JArr rs)]) races))])])]"

definition constructor_standing :: "string \<Rightarrow> string \<Rightarrow> json" where
  "constructor_standing name pts =
     JObj [(''points'', JStr pts), (''Constructor'', JObj [(''name'', JStr name)])]"

definition constructor_standings_payload :: "json list \<Rightarrow> json" where
  "constructor_standings_payload entries =
     JObj [(''MRData'', JObj [(''StandingsTable'', JObj [(''StandingsLists'',
       JArr [JObj [(''ConstructorStandings'', JArr entries)]])])])]"

definition example_standings :: json where
  "example_standings =
     standings_payload [standing ''Verstappen'' ''395'', standing ''Hamilton'' ''387'']"

text \<open>Three races; Hamilton finishes first, third and second.\<close>

definition example_results :: json where
  "example_results =
     results_payload
       [[result ''Hamilton'' ''1'', result ''Verstappen'' ''2'', result ''Bottas'' ''3'',
         result ''Norris'' ''4''],
        [result ''Verstappen'' ''1'', result ''Bottas'' ''2'', result ''Hamilton'' ''3''],
        [result ''Verstappen'' ''1'', result ''Hamilton'' ''2'', result ''Norris'' ''3'']]"

definition example_constructor_standings :: json where
  "example_constructor_standings =
     constructor_standings_payload
       [constructor_standing ''Mercedes'' ''613'', constructor_standing ''Red Bull'' ''585'']"

definition example_data :: "(string \<times> json) list" where
  "example_data =
     [(''standings'', example_standings), (''results'', example_results),
      (''constructor_standings'', example_constructor_standings)]"

text \<open>A results payload whose only result has the position \<^verbatim>\<open>abc\<close>.\<close>

definition bad_position_data :: "(string \<times> json) list" where
  "bad_position_data = [(''results'', results_payload [[result ''Hamilton'' ''abc'']])]"

text \<open>
  A results payload of two races in which the second result of the first race has the
  position \<^verbatim>\<open>abc\<close>.
\<close>

definition late_bad_position_data :: "(string \<times> json) list" where
  "late_bad_position_data =
     [(''results'', results_payload
        [[result ''Verstappen'' ''1'', result ''Hamilton'' ''abc''],
         [result ''Bottas'' ''2'']])]"

text \<open>A result without a \<^verbatim>\<open>position\<close> key, and a payload that has one.\<close>

definition result_without_position :: "string \<Rightarrow> json" where
  "result_without_position name = JObj [(''Driver'', JObj [(''familyName'', JStr name)])]"

definition missing_position_data :: "(string \<times> json) list" where
  "missing_position_data =
     [(''results'', results_payload
        [[result ''Verstappen'' ''1'', result_without_position ''Hamilton'',
          result ''Bottas'' ''3'']])]"

text \<open>A network on which the standings request succeeds and the two others fail.\<close>

definition net_results_down :: "json \<Rightarrow> string \<Rightarrow> response" where
  "net_results_down standings url =
     (if url = standings_url ''2021'' then HttpResponse 200 [] (Some standings)
      else HttpResponse 500 ''500 Server Error'' None)"

definition net_down :: "string \<Rightarrow> response" where
  "net_down url = ConnectionFailed ''unreachable''"

section \<open>Exceptions and loops\<close>

lemma bind_err_Inr_iff:
  "bind_err m f = Inr y \<longleftrightarrow> (\<exists>x. m = Inr x \<and> f x = Inr y)"
  by (cases m) (simp_all add: bind_err_def)

lemma bind_err_Inl [simp]: "bind_err (Inl e) f = Inl e"
  by (simp add: bind_err_def)

lemma bind_err_Inr [simp]: "bind_err (Inr x) f = f x"
  by (simp add: bind_err_def)

lemma bind_err_Inl_iff:
  "bind_err m f = Inl e \<longleftrightarrow> m = Inl e \<or> (\<exists>x. m = Inr x \<and> f x = Inl e)"
  by (cases m) (simp_all add: bind_err_def)

lemma map_err_Inr_iff: "map_err f xs = Inr ys \<longleftrightarrow> map f xs = map Inr ys"
proof (induction xs arbitrary: ys)
  case Nil
  show ?case by auto
next
  case (Cons x xs)
  show ?case
  proof (cases "f x")
    case (Inl e)
    then show ?thesis by (cases ys) auto
  next
    case fx: (Inr y)
    show ?thesis
    proof (cases "map_err f xs")
      case (Inl e)
      with Cons.IH have "\<And>zs. map f xs \<noteq> map Inr zs" by auto
      with fx Inl show ?thesis by (cases ys) auto
    next
      case (Inr zs)
      with Cons.IH[of zs] have "map f xs = map Inr zs" by simp
      with fx Inr show ?thesis by (cases ys) (auto simp: inj_map_eq_map)
    qed
  qed
qed

lemma map_err_length: "map_err f xs = Inr ys \<Longrightarrow> length ys = length xs"
  by (metis length_map map_err_Inr_iff)

lemma map_err_nth:
  "map_err f xs = Inr ys \<Longrightarrow> i < length xs \<Longrightarrow> f (xs ! i) = Inr (ys ! i)"
  by (metis length_map map_err_Inr_iff nth_map)

lemma map_err_append:
  "map_err f (xs @ zs) = Inr ys \<longleftrightarrow>
     (\<exists>ys1 ys2. ys = ys1 @ ys2 \<and> map_err f xs = Inr ys1 \<and> map_err f zs = Inr ys2)"
  unfolding map_err_Inr_iff by (auto simp: map_eq_append_conv append_eq_map_conv)

lemma fold_err_obs:
  "fold_err (\<lambda>x s. bind_err (g x) (\<lambda>y. Inr (h y s))) xs s = Inr s' \<longleftrightarrow>
     (\<exists>ys. map_err g xs = Inr ys \<and> s' = fold h ys s)"
proof (induction xs arbitrary: s)
  case Nil
  show ?case by auto
next
  case (Cons x xs)
  show ?case
  proof (cases "g x")
    case (Inl e)
    then show ?thesis by simp
  next
    case (Inr y)
    then show ?thesis
      by (cases "map_err g xs") (auto simp: Cons.IH)
  qed
qed

lemma fold_err_nested:
  "fold_err (\<lambda>x s. bind_err (r x) (\<lambda>zs.
       fold_err (\<lambda>z s. bind_err (g z) (\<lambda>y. Inr (h y s))) zs s)) xs s = Inr s' \<longleftrightarrow>
     (\<exists>zss ys. map_err r xs = Inr zss \<and> map_err g (concat zss) = Inr ys \<and> s' = fold h ys s)"
proof (induction xs arbitrary: s)
  case Nil
  show ?case by auto
next
  case (Cons x xs)
  show ?case
  proof (cases "r x")
    case (Inl e)
    then show ?thesis by simp
  next
    case rx: (Inr zs)
    have step: "fold_err (\<lambda>x s. bind_err (r x) (\<lambda>zs.
         fold_err (\<lambda>z s. bind_err (g z) (\<lambda>y. Inr (h y s))) zs s)) (x # xs) s =
       bind_err (fold_err (\<lambda>z s. bind_err (g z) (\<lambda>y. Inr (h y s))) zs s)
         (fold_err (\<lambda>x s. bind_err (r x) (\<lambda>zs.
            fold_err (\<lambda>z s. bind_err (g z) (\<lambda>y. Inr (h y s))) zs s)) xs)"
      using rx by (simp add: bind_err_def split: sum.splits)
    show ?thesis
      unfolding step bind_err_Inr_iff Cons.IH fold_err_obs
      using rx by (cases "map_err r xs") (auto simp: map_err_append)
  qed
qed

section \<open>Dicts in insertion order\<close>

lemma py_eq_refl [simp]: "py_eq k k"
  by (simp add: py_eq_def)

lemma py_eq_sym: "py_eq a b \<longleftrightarrow> py_eq b a"
  by (auto simp: py_eq_def)

lemma py_eq_trans: "py_eq a b \<Longrightarrow> py_eq b c \<Longrightarrow> py_eq a c"
  by (simp add: py_eq_def)

lemma list_ex_py_eq: "list_ex (\<lambda>a. py_eq a k) ks \<longleftrightarrow> py_key k \<in> py_key ` set ks"
  by (auto simp: list_ex_iff py_eq_def image_iff) metis

lemma dict_get_None_iff: "dict_get d k = None \<longleftrightarrow> py_key k \<notin> py_key ` set (map fst d)"
  by (induction d) (auto simp: py_eq_def)

lemma dict_get_set:
  "dict_get (dict_set k v d) k' = (if py_eq k k' then Some v else dict_get d k')"
  by (induction d) (auto simp: py_eq_def)

lemma keys_dict_set:
  "map fst (dict_set k v d) =
     (if list_ex (\<lambda>a. py_eq a k) (map fst d) then map fst d else map fst d @ [k])"
  by (induction d) (auto simp: py_eq_def)

lemma dict_get_member:
  "distinct (map py_key (map fst d)) \<Longrightarrow> (k, v) \<in> set d \<Longrightarrow> dict_get d k = Some v"
  by (induction d) (auto simp: py_eq_def rev_image_eqI)

text \<open>The keys after a loop of stores.\<close>

lemma first_seen_from_fold:
  "fold (\<lambda>k seen. if list_ex (\<lambda>a. py_eq a k) seen then seen else seen @ [k]) ks seen
     = seen @ first_seen_from seen ks"
  by (induction ks arbitrary: seen) auto

lemma keys_fold:
  assumes "\<And>x d. map fst (step x d) =
     (if list_ex (\<lambda>a. py_eq a (keyf x)) (map fst d) then map fst d else map fst d @ [keyf x])"
  shows "map fst (fold step xs d) = map fst d @ first_seen_from (map fst d) (map keyf xs)"
  using assms by (induction xs arbitrary: d) auto

lemma distinct_first_seen_from:
  "distinct (map py_key seen) \<Longrightarrow> distinct (map py_key (seen @ first_seen_from seen ks))"
proof (induction ks arbitrary: seen)
  case Nil
  then show ?case by simp
next
  case (Cons k ks)
  show ?case
  proof (cases "list_ex (\<lambda>a. py_eq a k) seen")
    case True
    with Cons show ?thesis by simp
  next
    case False
    then have "distinct (map py_key (seen @ [k]))"
      using Cons.prems by (auto simp: list_ex_py_eq)
    from Cons.IH[OF this] False show ?thesis by simp
  qed
qed

lemma distinct_first_seen: "distinct (map py_key (first_seen ks))"
  using distinct_first_seen_from[of "[]" ks] by (simp add: first_seen_def)

text \<open>
  First-seen order keeps one key of every class of equal keys, takes its keys from the
  list, and starts with the first key of the list.
\<close>

lemma first_seen_from_keys:
  "py_key ` set (seen @ first_seen_from seen ks) = py_key ` (set seen \<union> set ks)"
proof (induction ks arbitrary: seen)
  case Nil
  show ?case by simp
next
  case (Cons k ks)
  show ?case
  proof (cases "list_ex (\<lambda>a. py_eq a k) seen")
    case True
    then have "py_key k \<in> py_key ` set seen" by (simp add: list_ex_py_eq)
    with True Cons.IH[of seen] show ?thesis by auto
  next
    case False
    with Cons.IH[of "seen @ [k]"] show ?thesis by auto
  qed
qed

lemma first_seen_keys: "py_key ` set (first_seen ks) = py_key ` set ks"
  using first_seen_from_keys[of "[]" ks] by (simp add: first_seen_def)

lemma first_seen_from_subset: "set (first_seen_from seen ks) \<subseteq> set ks"
  by (induction ks arbitrary: seen) auto

lemma first_seen_subset: "set (first_seen ks) \<subseteq> set ks"
  by (simp add: first_seen_def first_seen_from_subset)

lemma first_seen_head: "first_seen (k # ks) \<noteq> [] \<and> hd (first_seen (k # ks)) = k"
  by (simp add: first_seen_def)

lemma count_up_keys:
  "map fst (count_up k d) =
     (if list_ex (\<lambda>a. py_eq a k) (map fst d) then map fst d else map fst d @ [k])"
  by (simp add: count_up_def keys_dict_set)

lemma record_position_keys:
  "map fst (record_position ob d) =
     (if list_ex (\<lambda>a. py_eq a (fst ob)) (map fst d) then map fst d else map fst d @ [fst ob])"
  by (simp add: record_position_def keys_dict_set split: option.splits)

lemma dict_get_count_up:
  "dict_get (count_up k d) k' =
     (if py_eq k k' then Some ((case dict_get d k' of None \<Rightarrow> 0 | Some c \<Rightarrow> c) + 1)
      else dict_get d k')"
proof -
  have "py_eq k k' \<Longrightarrow> dict_get d k = dict_get d k'"
    by (induction d) (auto simp: py_eq_def)
  then show ?thesis by (auto simp: count_up_def dict_get_set)
qed

lemma dict_get_record_position:
  "dict_get (record_position ob d) k' =
     (if py_eq (fst ob) k'
      then Some ((case dict_get d k' of None \<Rightarrow> [] | Some ps \<Rightarrow> ps) @ [snd ob])
      else dict_get d k')"
proof -
  have "py_eq (fst ob) k' \<Longrightarrow> dict_get d (fst ob) = dict_get d k'"
    by (induction d) (auto simp: py_eq_def)
  then show ?thesis by (auto simp: record_position_def dict_get_set split: option.splits)
qed

lemma dict_get_fold_count_up:
  "dict_get (fold count_up ks d) k =
     (if occurrences ks k = 0 then dict_get d k
      else Some ((case dict_get d k of None \<Rightarrow> 0 | Some c \<Rightarrow> c) + occurrences ks k))"
  by (induction ks arbitrary: d) (auto simp: occurrences_def dict_get_count_up split: option.splits)

lemma dict_get_fold_record_position:
  "dict_get (fold record_position obs d) k =
     (if positions_for obs k = [] then dict_get d k
      else Some ((case dict_get d k of None \<Rightarrow> [] | Some ps \<Rightarrow> ps) @ positions_for obs k))"
  by (induction obs arbitrary: d)
    (auto simp: positions_for_def dict_get_record_position split: option.splits)

lemma sum_dict_set:
  "sum_list (map snd (dict_set k (v::int) d)) =
     sum_list (map snd d) + v - (case dict_get d k of None \<Rightarrow> 0 | Some c \<Rightarrow> c)"
  by (induction d) auto

lemma sum_count_up: "sum_list (map snd (count_up k d)) = sum_list (map snd d) + 1"
  by (simp add: count_up_def sum_dict_set)

lemma sum_fold_count_up:
  "sum_list (map snd (fold count_up ks d)) = sum_list (map snd d) + int (length ks)"
  by (induction ks arbitrary: d) (auto simp: sum_count_up)

lemma keys_fold_record_position:
  "map fst (fold record_position obs []) = first_seen (map fst obs)"
  using keys_fold[of record_position fst obs "[]", OF record_position_keys]
  by (simp add: first_seen_def)

lemma keys_fold_count_up: "map fst (fold count_up ks []) = first_seen ks"
  using keys_fold[of count_up "\<lambda>k. k" ks "[]", OF count_up_keys]
  by (simp add: first_seen_def)

lemma values_fold_record_position:
  "map snd (fold record_position obs []) =
     map (positions_for obs) (first_seen (map fst obs))"
proof -
  let ?fp = "fold record_position obs []"
  have d: "distinct (map py_key (map fst ?fp))"
    by (simp only: keys_fold_record_position distinct_first_seen)
  have "snd kv = positions_for obs (fst kv)" if "kv \<in> set ?fp" for kv
  proof -
    from that have "dict_get ?fp (fst kv) = Some (snd kv)"
      using dict_get_member[OF d, of "fst kv" "snd kv"] by simp
    then show ?thesis
      by (simp add: dict_get_fold_record_position split: if_splits)
  qed
  then have "map snd ?fp = map (positions_for obs) (map fst ?fp)"
    by simp
  then show ?thesis by (simp only: keys_fold_record_position)
qed

lemma values_fold_count_up:
  "map snd (fold count_up ks []) = map (occurrences ks) (first_seen ks)"
proof -
  let ?c = "fold count_up ks []"
  have d: "distinct (map py_key (map fst ?c))"
    by (simp only: keys_fold_count_up distinct_first_seen)
  have "snd kv = occurrences ks (fst kv)" if "kv \<in> set ?c" for kv
  proof -
    from that have "dict_get ?c (fst kv) = Some (snd kv)"
      using dict_get_member[OF d, of "fst kv" "snd kv"] by simp
    then show ?thesis
      by (simp add: dict_get_fold_count_up split: if_splits)
  qed
  then have "map snd ?c = map (occurrences ks) (map fst ?c)"
    by simp
  then show ?thesis by (simp only: keys_fold_count_up)
qed

lemma finish_positions_char:
  "finish_positions B races = Inr fp \<longleftrightarrow>
     (\<exists>rss obs. map_err race_results races = Inr rss \<and>
        map_err (finish_observation B) (concat rss) = Inr obs \<and>
        fp = fold record_position obs [])"
  unfolding finish_positions_def by (rule fold_err_nested)

lemma average_finish_series_char:
  "average_finish_series B d = Inr (ls, vs) \<longleftrightarrow>
     (\<exists>obs avgs. finish_observations B d = Inr obs \<and>
        ls = first_seen (map fst obs) \<and>
        map_err (average B) (map (positions_for obs) ls) = Inr avgs \<and>
        vs = map PyFloat avgs)"
  unfolding average_finish_series_def finish_observations_def all_results_def
    bind_err_Inr_iff finish_positions_char
  by (auto simp: keys_fold_record_position values_fold_record_position)

lemma win_counts_char:
  "win_counts races = Inr counts \<longleftrightarrow>
     (\<exists>ws. map_err winner_of races = Inr ws \<and> counts = fold count_up ws [])"
  unfolding win_counts_def by (rule fold_err_obs)

lemma count_values:
  "map (\<lambda>kv. PyInt (snd kv)) (fold count_up ks []) =
     map (\<lambda>k. PyInt (occurrences ks k)) (first_seen ks)"
proof -
  have "map (\<lambda>kv. PyInt (snd kv)) (fold count_up ks []) =
      map PyInt (map snd (fold count_up ks []))"
    by simp
  also have "\<dots> = map PyInt (map (occurrences ks) (first_seen ks))"
    by (simp only: values_fold_count_up)
  finally show ?thesis by (simp add: comp_def)
qed

lemma most_wins_series_char:
  "most_wins_series d = Inr (ls, vs) \<longleftrightarrow>
     (\<exists>ws. winners d = Inr ws \<and> ls = first_seen ws \<and>
        vs = map (\<lambda>k. PyInt (occurrences ws k)) ls)"
  unfolding most_wins_series_def winners_def bind_err_Inr_iff win_counts_char
  by (auto simp: keys_fold_count_up count_values)

lemma fold_tally:
  "fold (\<lambda>ob c. case ob of None \<Rightarrow> c | Some k \<Rightarrow> count_up k c) obs c =
     fold count_up (counted obs) c"
  by (induction obs arbitrary: c) (auto simp: counted_def split: option.splits)

lemma podium_counts_char:
  "podium_counts B races = Inr counts \<longleftrightarrow>
     (\<exists>rss obs. map_err race_results races = Inr rss \<and>
        map_err (podium_observation B) (concat rss) = Inr obs \<and>
        counts = fold count_up (counted obs) [])"
proof -
  have tally: "(case ob of None \<Rightarrow> Inr c | Some k \<Rightarrow> Inr (count_up k c)) =
      (Inr (case ob of None \<Rightarrow> c | Some k \<Rightarrow> count_up k c) :: py_error + (json \<times> int) list)"
    for ob c
    by (cases ob) simp_all
  show ?thesis
    unfolding podium_counts_def tally fold_err_nested fold_tally ..
qed

lemma podium_series_char:
  "podium_series B d = Inr (ls, vs) \<longleftrightarrow>
     (\<exists>obs. podium_observations B d = Inr obs \<and> ls = first_seen (counted obs) \<and>
        vs = map (\<lambda>k. PyInt (occurrences (counted obs) k)) ls)"
  unfolding podium_series_def podium_observations_def all_results_def
    bind_err_Inr_iff podium_counts_char
  by (auto simp: keys_fold_count_up count_values)

lemma as_key_Inr_iff: "as_key k = Inr k' \<longleftrightarrow> py_hashable k \<and> k' = k"
  by (auto simp: as_key_def)

lemma podium_observation_char:
  "podium_observation B r = Inr ob \<longleftrightarrow>
     (\<exists>p. position_of B r = Inr p \<and>
        (if p \<le> 3 then \<exists>k. family_name r = Inr k \<and> py_hashable k \<and> ob = Some k
         else ob = None))"
  unfolding podium_observation_def bind_err_Inr_iff
  by (auto simp: bind_err_Inr_iff as_key_Inr_iff)

lemma finish_observation_char:
  "finish_observation B r = Inr ob \<longleftrightarrow>
     family_name r = Inr (fst ob) \<and> position_of B r = Inr (snd ob) \<and> py_hashable (fst ob)"
  unfolding finish_observation_def bind_err_Inr_iff
  by (cases ob) (auto simp: as_key_Inr_iff)

lemma total_points_series_char:
  "total_points_series B d = Inr (ls, vs) \<longleftrightarrow>
     (\<exists>es xs. driver_standings d = Inr es \<and> map family_name es = map Inr ls \<and>
        map (points_of B) es = map Inr xs \<and> vs = map PyFloat xs)"
  unfolding total_points_series_def bind_err_Inr_iff map_err_Inr_iff
  by auto

lemma constructor_series_char:
  "constructor_series B d = Inr (ls, vs) \<longleftrightarrow>
     (\<exists>es xs. constructor_standings d = Inr es \<and> map constructor_name es = map Inr ls \<and>
        map (points_of B) es = map Inr xs \<and> vs = map PyFloat xs)"
  unfolding constructor_series_def bind_err_Inr_iff map_err_Inr_iff
  by auto

section \<open>Observations, results by results\<close>

lemma map_finish_observation:
  "map (finish_observation B) rs = map Inr obs \<longleftrightarrow>
     map family_name rs = map Inr (map fst obs) \<and>
     map (position_of B) rs = map Inr (map snd obs) \<and>
     list_all py_hashable (map fst obs)"
proof (induction rs arbitrary: obs)
  case Nil
  show ?case by auto
next
  case (Cons r rs)
  show ?case
  proof (cases obs)
    case Nil
    then show ?thesis by simp
  next
    case (Cons ob obs')
    then show ?thesis
      using Cons.IH[of obs'] by (auto simp: finish_observation_char)
  qed
qed

lemma finish_observations_char:
  "finish_observations B d = Inr obs \<longleftrightarrow>
     (\<exists>rs. all_results d = Inr rs \<and>
        map family_name rs = map Inr (map fst obs) \<and>
        map (position_of B) rs = map Inr (map snd obs) \<and>
        list_all py_hashable (map fst obs))"
  unfolding finish_observations_def bind_err_Inr_iff map_err_Inr_iff map_finish_observation ..

lemma counted_simps [simp]:
  "counted [] = []"
  "counted (None # obs) = counted obs"
  "counted (Some k # obs) = k # counted obs"
  by (simp_all add: counted_def)

lemma qualifying_simps [simp]:
  "qualifying [] ps = []"
  "qualifying rs [] = []"
  "qualifying (r # rs) (p # ps) = (if p \<le> 3 then r # qualifying rs ps else qualifying rs ps)"
  by (simp_all add: qualifying_def)

lemma length_qualifying:
  "length rs = length ps \<Longrightarrow> length (qualifying rs ps) = length (filter (\<lambda>p. p \<le> 3) ps)"
  by (induction rs ps rule: list_induct2) auto

lemma map_podium_observation:
  "(\<exists>obs. map (podium_observation B) rs = map Inr obs \<and> counted obs = ks) \<longleftrightarrow>
     (\<exists>ps. map (position_of B) rs = map Inr ps \<and>
        map family_name (qualifying rs ps) = map Inr ks \<and> list_all py_hashable ks)"
proof (induction rs arbitrary: ks)
  case Nil
  show ?case by auto
next
  case (Cons r rs)
  show ?case (is "?L = ?R")
  proof
    assume ?L
    then obtain ob obs where ob: "podium_observation B r = Inr ob"
      and obs: "map (podium_observation B) rs = map Inr obs"
      and ks: "counted (ob # obs) = ks"
      by (auto simp: map_eq_Cons_conv Cons_eq_map_conv)
    from ob obtain p where p: "position_of B r = Inr p"
      and c: "if p \<le> 3 then \<exists>k. family_name r = Inr k \<and> py_hashable k \<and> ob = Some k
              else ob = None"
      unfolding podium_observation_char by blast
    from obs Cons.IH[of "counted obs"] obtain ps where
      ps: "map (position_of B) rs = map Inr ps"
        "map family_name (qualifying rs ps) = map Inr (counted obs)"
        "list_all py_hashable (counted obs)"
      by blast
    show ?R
    proof (cases "p \<le> 3")
      case True
      with c obtain k where "family_name r = Inr k" "py_hashable k" "ob = Some k" by auto
      with True p ps ks show ?thesis
        by (intro exI[of _ "p # ps"]) auto
    next
      case False
      with c have "ob = None" by simp
      with False p ps ks show ?thesis
        by (intro exI[of _ "p # ps"]) auto
    qed
  next
    assume ?R
    then obtain p ps where p: "position_of B r = Inr p"
      and ps: "map (position_of B) rs = map Inr ps"
      and q: "map family_name (qualifying (r # rs) (p # ps)) = map Inr ks"
      and h: "list_all py_hashable ks"
      by (auto simp: map_eq_Cons_conv Cons_eq_map_conv)
    show ?L
    proof (cases "p \<le> 3")
      case True
      with q obtain k ks' where k: "ks = k # ks'" "family_name r = Inr k"
        "map family_name (qualifying rs ps) = map Inr ks'"
        by (auto simp: map_eq_Cons_conv Cons_eq_map_conv)
      with h have "py_hashable k" "list_all py_hashable ks'" by simp_all
      with ps k Cons.IH[of ks'] obtain obs where
        obs: "map (podium_observation B) rs = map Inr obs" "counted obs = ks'"
        by blast
      have "podium_observation B r = Inr (Some k)"
        unfolding podium_observation_char using True p k \<open>py_hashable k\<close> by auto
      with obs k show ?thesis
        by (intro exI[of _ "Some k # obs"]) simp
    next
      case False
      with q ps h Cons.IH[of ks] obtain obs where
        obs: "map (podium_observation B) rs = map Inr obs" "counted obs = ks"
        by auto
      have "podium_observation B r = Inr None"
        unfolding podium_observation_char using False p by auto
      with obs show ?thesis
        by (intro exI[of _ "None # obs"]) simp
    qed
  qed
qed

lemma podium_observations_char:
  "(\<exists>obs. podium_observations B d = Inr obs \<and> counted obs = ks) \<longleftrightarrow>
     (\<exists>rs ps. all_results d = Inr rs \<and> map (position_of B) rs = map Inr ps \<and>
        map family_name (qualifying rs ps) = map Inr ks \<and> list_all py_hashable ks)"
  unfolding podium_observations_def bind_err_Inr_iff map_err_Inr_iff
  using map_podium_observation[of B _ ks] by blast

lemma sum_occurrences_first_seen:
  "sum_list (map (occurrences ks) (first_seen ks)) = int (length ks)"
  using sum_fold_count_up[of ks "[]"] by (simp add: values_fold_count_up)

lemma winner_of_char:
  "winner_of race = Inr k \<longleftrightarrow>
     (\<exists>results w. getitem race ''Results'' = Inr results \<and> getitem0 results = Inr w \<and>
        family_name w = Inr k \<and> py_hashable k)"
  unfolding winner_of_def bind_err_Inr_iff by (auto simp: as_key_Inr_iff)

lemma average_mean:
  "qs \<noteq> [] \<Longrightarrow>
     average B qs =
       (case float_of_rat B (of_int (sum_list qs) / of_nat (length qs)) of
          None \<Rightarrow> Inl OverflowError | Some x \<Rightarrow> Inr x)"
  by (simp add: average_def py_truediv_def)

section \<open>Evaluation on the concrete inputs\<close>

lemma isdigit_2021: "isdigit ''2021''"
  by (simp add: isdigit_def isdigit_char_def)

lemma not_isdigit_abc: "\<not> isdigit ''abc''"
  by (simp add: isdigit_def isdigit_char_def)

lemma driver_standings_payload:
  "driver_standings [(''standings'', standings_payload es)] = Inr es"
  by (simp add: driver_standings_def data_get_def standings_payload_def getitem_def
      getitem0_def py_iter_def)

lemma total_points_example_standings:
  "total_points_series plain_builtins [(''standings'', example_standings)] =
     Inr ([JStr ''Verstappen'', JStr ''Hamilton''], [PyFloat 395, PyFloat 387])"
  by (simp add: total_points_series_def example_standings_def driver_standings_payload
      family_name_def points_of_def standing_def getitem_def py_float_def plain_builtins_def
      decimal_def)

section \<open>The controller\<close>

text \<open>
  C7: "Update Chart" with an empty data store shows the error message "No data
  available. Please fetch data first." and does nothing else: the result does not
  depend on the builtins or on any payload (no aggregation runs), no exception leaves
  the method, and the axes, the canvas and the data store are as before; the trace
  gains the message box only, so no draw happens.
\<close>

theorem update_chart_idle:
  "data s = [] \<Longrightarrow>
     update_chart B s =
       (emit (ShowError ''Error'' ''No data available. Please fetch data first.'') s, None) \<and>
     trace (fst (update_chart B s)) =
       trace s @ [ShowError ''Error'' ''No data available. Please fetch data first.''] \<and>
     ax (fst (update_chart B s)) = ax s \<and>
     canvas (fst (update_chart B s)) = canvas s \<and>
     data (fst (update_chart B s)) = data s"
  by (simp add: update_chart_def emit_def)

theorem update_chart_idle_witness:
  "data (init_app :: rat app) = [] \<and>
   update_chart plain_builtins (init_app :: rat app) =
     (emit (ShowError ''Error'' ''No data available. Please fetch data first.'') init_app, None) \<and>
   canvas (fst (update_chart plain_builtins (init_app :: rat app))) = empty_axes"
proof -
  have h: "data (init_app :: rat app) = []" by (simp add: init_app_def)
  have c: "canvas (init_app :: rat app) = empty_axes" by (simp add: init_app_def)
  from update_chart_idle[OF h, of plain_builtins] h c show ?thesis
    by (simp add: emit_def)
qed

text \<open>
  C2, as the spec states it, fails: the season \<^verbatim>\<open>0\<close> does not denote a positive
  integer, yet it passes the \<^verbatim>\<open>isdigit\<close> guard and the first request is issued.
\<close>

theorem fetch_data_season_zero:
  "\<not> spec_positive_integer ''0'' \<and>
   trace (fst (fetch_data net_down ((init_app :: rat app)\<lparr>season_entry := ''0''\<rparr>))) =
     [HttpGet ''https://ergast.com/api/f1/0/driverStandings.json'',
      ShowError ''Error'' ''Failed to fetch data: unreachable'']"
  by (simp add: spec_positive_integer_def decimal_def fetch_data_def isdigit_def
      isdigit_char_def fetch_body_def fetch_into_def get_json_def net_down_def emit_def
      init_app_def standings_url_def Let_def)

text \<open>
  C2, amended: for every season string that \<^verbatim>\<open>str.isdigit()\<close> rejects (the empty
  string, or a string with a character that is not a digit), \<^verbatim>\<open>fetch_data\<close> shows the
  validation error and does nothing else: the trace gains that message box only, so no
  request is made, and the data store is unchanged.
\<close>

theorem fetch_data_rejects_non_digits:
  "\<not> isdigit (season_entry s) \<Longrightarrow>
     fetch_data net s =
       (emit (ShowError ''Error'' ''Please enter a valid season year.'') s, None) \<and>
     trace (fst (fetch_data net s)) =
       trace s @ [ShowError ''Error'' ''Please enter a valid season year.''] \<and>
     data (fst (fetch_data net s)) = data s"
  by (simp add: fetch_data_def emit_def)

theorem fetch_data_rejects_non_digits_witness:
  "\<not> isdigit (season_entry ((init_app :: rat app)\<lparr>season_entry := ''abc''\<rparr>)) \<and>
   trace (fst (fetch_data net_down ((init_app :: rat app)\<lparr>season_entry := ''abc''\<rparr>))) =
     [ShowError ''Error'' ''Please enter a valid season year.'']"
proof -
  have h: "\<not> isdigit (season_entry ((init_app :: rat app)\<lparr>season_entry := ''abc''\<rparr>))"
    by (simp add: not_isdigit_abc)
  have t: "trace ((init_app :: rat app)\<lparr>season_entry := ''abc''\<rparr>) = []"
    by (simp add: init_app_def)
  from fetch_data_rejects_non_digits[OF h, of net_down] h t show ?thesis
    by (simp add: emit_def)
qed

text \<open>
  C1: the code at a fetch whose second request fails. Starting with an empty data
  store and the season \<^verbatim>\<open>2021\<close>, the standings request succeeds and the results
  request gets status 500. The failure is reported, but the standings payload stays in
  the data store. A following "Update Chart" therefore passes the "no data" guard: with
  "Total Points Distribution" selected it draws the chart, and with "Most Wins by
  Driver" selected a \<^verbatim>\<open>KeyError\<close> leaves the method; had the fetch never been
  attempted, it would show "No data available. Please fetch data first.".
\<close>

theorem partial_fetch_is_retained:
  "fetch_data (net_results_down example_standings)
       ((init_app :: rat app)\<lparr>season_entry := ''2021''\<rparr>) =
     ((init_app :: rat app)\<lparr>season_entry := ''2021'',
        data := [(''standings'', example_standings)],
        trace := [HttpGet (standings_url ''2021''), HttpGet (results_url ''2021''),
                  ShowError ''Error'' ''Failed to fetch data: 500 Server Error'']\<rparr>, None) \<and>
   snd (update_chart plain_builtins
       (fst (fetch_data (net_results_down example_standings)
          ((init_app :: rat app)\<lparr>season_entry := ''2021''\<rparr>)))) = None \<and>
   bars (canvas (fst (update_chart plain_builtins
       (fst (fetch_data (net_results_down example_standings)
          ((init_app :: rat app)\<lparr>season_entry := ''2021''\<rparr>)))))) =
     [([JStr ''Verstappen'', JStr ''Hamilton''], [PyFloat 395, PyFloat 387])] \<and>
   snd (update_chart plain_builtins
       ((fst (fetch_data (net_results_down example_standings)
          ((init_app :: rat app)\<lparr>season_entry := ''2021''\<rparr>)))
        \<lparr>chart_type := ''Most Wins by Driver''\<rparr>)) = Some KeyError \<and>
   update_chart plain_builtins ((init_app :: rat app)\<lparr>season_entry := ''2021''\<rparr>) =
     (emit (ShowError ''Error'' ''No data available. Please fetch data first.'')
        ((init_app :: rat app)\<lparr>season_entry := ''2021''\<rparr>), None)"
proof -
  let ?s0 = "(init_app :: rat app)\<lparr>season_entry := ''2021''\<rparr>"
  let ?tr = "[HttpGet (standings_url ''2021''), HttpGet (results_url ''2021''),
              ShowError ''Error'' ''Failed to fetch data: 500 Server Error'']"
  let ?ser = "([JStr ''Verstappen'', JStr ''Hamilton''], [PyFloat 395, PyFloat 387])"
  have urls: "results_url ''2021'' \<noteq> standings_url ''2021''"
    by (simp add: results_url_def standings_url_def)
  have f: "fetch_data (net_results_down example_standings) ?s0 =
     (?s0\<lparr>data := [(''standings'', example_standings)], trace := ?tr\<rparr>, None)"
    by (simp add: fetch_data_def isdigit_2021 fetch_body_def fetch_into_def get_json_def
        net_results_down_def urls emit_def init_app_def Let_def)
  have u1: "update_chart plain_builtins
      (?s0\<lparr>data := [(''standings'', example_standings)], trace := ?tr\<rparr>) =
     (?s0\<lparr>data := [(''standings'', example_standings)],
        ax := draw_bars ?ser ''Total Points Distribution'' ''Driver'' ''Total Points''
                empty_axes,
        canvas := draw_bars ?ser ''Total Points Distribution'' ''Driver'' ''Total Points''
                empty_axes,
        trace := ?tr @ [CanvasDraw]\<rparr>, None)"
    by (simp add: Let_def update_chart_def dispatch_def plot_total_points_distribution_def
        plot_def total_points_example_standings emit_def init_app_def)
  have u2: "snd (update_chart plain_builtins
      (?s0\<lparr>data := [(''standings'', example_standings)], trace := ?tr,
        chart_type := ''Most Wins by Driver''\<rparr>)) = Some KeyError"
    by (simp add: Let_def update_chart_def dispatch_def plot_most_wins_by_driver_def plot_def
        most_wins_series_def races_of_def data_get_def init_app_def)
  have u0: "update_chart plain_builtins ?s0 =
     (emit (ShowError ''Error'' ''No data available. Please fetch data first.'') ?s0, None)"
    by (simp add: Let_def update_chart_def init_app_def)
  show ?thesis
    unfolding f using u1 u2 u0 by (simp add: draw_bars_def empty_axes_def)
qed

section \<open>The series of the example payloads\<close>

lemmas example_defs =
  example_data_def example_standings_def example_results_def
  example_constructor_standings_def standings_payload_def results_payload_def
  constructor_standings_payload_def standing_def result_def constructor_standing_def
  data_get_def getitem_def getitem0_def py_iter_def family_name_def points_of_def
  position_of_def constructor_name_def py_int_def py_float_def plain_builtins_def
  decimal_def as_key_def py_hashable_def py_eq_def py_key_def bind_err_def

lemma total_points_example:
  "total_points_series plain_builtins example_data =
     Inr ([JStr ''Verstappen'', JStr ''Hamilton''], [PyFloat 395, PyFloat 387])"
  by (simp add: total_points_series_def driver_standings_def example_defs)

lemma constructor_example:
  "constructor_series plain_builtins example_data =
     Inr ([JStr ''Mercedes'', JStr ''Red Bull''], [PyFloat 613, PyFloat 585])"
  by (simp add: constructor_series_def constructor_standings_def example_defs)

lemma average_example:
  "average_finish_series plain_builtins example_data =
     Inr ([JStr ''Hamilton'', JStr ''Verstappen'', JStr ''Bottas'', JStr ''Norris''],
          [PyFloat 2, PyFloat (4 / 3), PyFloat (5 / 2), PyFloat (7 / 2)])"
  by (simp add: average_finish_series_def races_of_def finish_positions_def race_results_def
      finish_observation_def record_position_def average_def py_truediv_def example_defs)

lemma most_wins_example:
  "most_wins_series example_data =
     Inr ([JStr ''Hamilton'', JStr ''Verstappen''], [PyInt 1, PyInt 2])"
  by (simp add: most_wins_series_def races_of_def win_counts_def winner_of_def count_up_def
      example_defs)

lemma podium_example:
  "podium_series plain_builtins example_data =
     Inr ([JStr ''Hamilton'', JStr ''Verstappen'', JStr ''Bottas'', JStr ''Norris''],
          [PyInt 3, PyInt 3, PyInt 2, PyInt 1])"
  by (simp add: podium_series_def races_of_def podium_counts_def race_results_def
      podium_observation_def count_up_def example_defs)

section \<open>The aggregations\<close>

text \<open>
  C3: the "Total Points Distribution" aggregation returns a series exactly when every
  driver entry of the standings payload has a family name and a points field that
  \<^verbatim>\<open>float\<close> accepts; the series then has one label and one value for each driver entry,
  the labels are the family names in payload order, and the values are the points fields
  converted by \<^verbatim>\<open>float\<close>, in payload order.
\<close>

theorem total_points_in_payload_order:
  "total_points_series B d = Inr (ls, vs) \<longleftrightarrow>
     (\<exists>es xs. driver_standings d = Inr es \<and>
        length ls = length es \<and> length vs = length es \<and>
        map family_name es = map Inr ls \<and>
        map (points_of B) es = map Inr xs \<and> vs = map PyFloat xs)"
proof -
  have "length ls = length es \<and> length xs = length es"
    if "map family_name es = map Inr ls" "map (points_of B) es = map Inr xs" for es xs
    using that by (metis length_map)
  then show ?thesis
    unfolding total_points_series_char by (auto simp del: map_eq_conv)
qed

theorem total_points_in_payload_order_witness:
  "total_points_series plain_builtins example_data =
     Inr ([JStr ''Verstappen'', JStr ''Hamilton''], [PyFloat 395, PyFloat 387]) \<and>
   (\<exists>es xs. driver_standings example_data = Inr es \<and>
      length [JStr ''Verstappen'', JStr ''Hamilton''] = length es \<and>
      length [PyFloat 395, PyFloat (387 :: rat)] = length es \<and>
      map family_name es = map Inr [JStr ''Verstappen'', JStr ''Hamilton''] \<and>
      map (points_of plain_builtins) es = map Inr xs \<and>
      [PyFloat 395, PyFloat 387] = map PyFloat xs)"
  using total_points_in_payload_order[THEN iffD1, OF total_points_example] total_points_example
  by blast

text \<open>
  C4: the "Most Wins by Driver" aggregation returns a series exactly when every race
  has a first-listed result with a hashable driver family name. That driver is the
  race's winner whatever the positions say; the labels are the winners in first-seen
  order, the value of a label is the number of races it has won, and the values sum to
  the number of races.
\<close>

theorem most_wins_one_win_per_race:
  "(most_wins_series d = Inr (ls, vs) \<longleftrightarrow>
     (\<exists>races ws. races_of d = Inr races \<and> map winner_of races = map Inr ws \<and>
        ls = first_seen ws \<and> vs = map (\<lambda>k. PyInt (occurrences ws k)) ls \<and>
        sum_list (map (occurrences ws) ls) = int (length races))) \<and>
   (winner_of race = Inr k \<longleftrightarrow>
     (\<exists>results w. getitem race ''Results'' = Inr results \<and> getitem0 results = Inr w \<and>
        family_name w = Inr k \<and> py_hashable k))"
proof -
  have "sum_list (map (occurrences ws) (first_seen ws)) = int (length races)"
    if "map winner_of races = map Inr ws" for races ws
    using that sum_occurrences_first_seen[of ws] by (metis length_map)
  then have "most_wins_series d = Inr (ls, vs) \<longleftrightarrow>
     (\<exists>races ws. races_of d = Inr races \<and> map winner_of races = map Inr ws \<and>
        ls = first_seen ws \<and> vs = map (\<lambda>k. PyInt (occurrences ws k)) ls \<and>
        sum_list (map (occurrences ws) ls) = int (length races))"
    unfolding most_wins_series_char winners_def bind_err_Inr_iff map_err_Inr_iff
    by (auto simp del: map_eq_conv)
  then show ?thesis
    using winner_of_char by simp
qed

theorem most_wins_one_win_per_race_witness:
  "(most_wins_series example_data :: py_error + json list \<times> rat pynum list) =
     Inr ([JStr ''Hamilton'', JStr ''Verstappen''], [PyInt 1, PyInt 2]) \<and>
   (\<exists>races ws. races_of example_data = Inr races \<and> map winner_of races = map Inr ws \<and>
      [JStr ''Hamilton'', JStr ''Verstappen''] = first_seen ws \<and>
      [PyInt 1, PyInt 2 :: rat pynum] =
        map (\<lambda>k. PyInt (occurrences ws k)) [JStr ''Hamilton'', JStr ''Verstappen''] \<and>
      sum_list (map (occurrences ws) [JStr ''Hamilton'', JStr ''Verstappen'']) =
        int (length races))"
  using most_wins_one_win_per_race[THEN conjunct1, THEN iffD1, OF most_wins_example]
    most_wins_example
  by blast

text \<open>
  C5: the "Podium Finishes by Driver" aggregation returns a series exactly when every
  result has a position that \<^verbatim>\<open>int\<close> accepts and every result whose position is at
  most 3 has a hashable driver family name. Exactly the results with a position of at
  most 3 are counted: the labels are their drivers in first-seen order, the value of a
  label is the number of such results of that driver, and the values sum to the number
  of positions that are at most 3.
\<close>

theorem podium_counts_positions_up_to_three:
  "podium_series B d = Inr (ls, vs) \<longleftrightarrow>
     (\<exists>rs ps ks. all_results d = Inr rs \<and> map (position_of B) rs = map Inr ps \<and>
        map family_name (qualifying rs ps) = map Inr ks \<and> list_all py_hashable ks \<and>
        ls = first_seen ks \<and> vs = map (\<lambda>k. PyInt (occurrences ks k)) ls \<and>
        sum_list (map (occurrences ks) ls) = int (length (filter (\<lambda>p. p \<le> 3) ps)))"
proof -
  have len: "int (length ks) = int (length (filter (\<lambda>p. p \<le> 3) ps))"
    if "map (position_of B) rs = map Inr ps" "map family_name (qualifying rs ps) = map Inr ks"
    for rs ps ks
  proof -
    from that(1) have "length rs = length ps" by (metis length_map)
    then have "length (qualifying rs ps) = length (filter (\<lambda>p. p \<le> 3) ps)"
      by (rule length_qualifying)
    moreover from that(2) have "length (qualifying rs ps) = length ks" by (metis length_map)
    ultimately show ?thesis by simp
  qed
  have "podium_series B d = Inr (ls, vs) \<longleftrightarrow>
      (\<exists>ks. (\<exists>obs. podium_observations B d = Inr obs \<and> counted obs = ks) \<and>
         ls = first_seen ks \<and> vs = map (\<lambda>k. PyInt (occurrences ks k)) ls)"
    unfolding podium_series_char by blast
  also have "\<dots> \<longleftrightarrow>
      (\<exists>rs ps ks. all_results d = Inr rs \<and> map (position_of B) rs = map Inr ps \<and>
        map family_name (qualifying rs ps) = map Inr ks \<and> list_all py_hashable ks \<and>
        ls = first_seen ks \<and> vs = map (\<lambda>k. PyInt (occurrences ks k)) ls)"
    unfolding podium_observations_char by blast
  also have "\<dots> \<longleftrightarrow>
      (\<exists>rs ps ks. all_results d = Inr rs \<and> map (position_of B) rs = map Inr ps \<and>
        map family_name (qualifying rs ps) = map Inr ks \<and> list_all py_hashable ks \<and>
        ls = first_seen ks \<and> vs = map (\<lambda>k. PyInt (occurrences ks k)) ls \<and>
        sum_list (map (occurrences ks) ls) = int (length (filter (\<lambda>p. p \<le> 3) ps)))"
    using len sum_occurrences_first_seen by (metis (no_types, lifting))
  finally show ?thesis .
qed

theorem podium_counts_positions_up_to_three_witness:
  "podium_series plain_builtins example_data =
     Inr ([JStr ''Hamilton'', JStr ''Verstappen'', JStr ''Bottas'', JStr ''Norris''],
          [PyInt 3, PyInt 3, PyInt 2, PyInt 1]) \<and>
   (\<exists>rs ps ks. all_results example_data = Inr rs \<and>
      map (position_of plain_builtins) rs = map Inr ps \<and>
      map family_name (qualifying rs ps) = map Inr ks \<and> list_all py_hashable ks \<and>
      [JStr ''Hamilton'', JStr ''Verstappen'', JStr ''Bottas'', JStr ''Norris''] =
        first_seen ks \<and>
      [PyInt 3, PyInt 3, PyInt 2, PyInt 1 :: rat pynum] =
        map (\<lambda>k. PyInt (occurrences ks k))
          [JStr ''Hamilton'', JStr ''Verstappen'', JStr ''Bottas'', JStr ''Norris''] \<and>
      sum_list (map (occurrences ks)
          [JStr ''Hamilton'', JStr ''Verstappen'', JStr ''Bottas'', JStr ''Norris'']) =
        int (length (filter (\<lambda>p. p \<le> 3) ps)))"
  using podium_counts_positions_up_to_three[THEN iffD1, OF podium_example] podium_example
  by blast

text \<open>
  C6: the "Average Finish Position by Driver" aggregation returns a series exactly when
  every result has a hashable driver family name and a position that \<^verbatim>\<open>int\<close> accepts,
  and no quotient is too large for a float. The labels are the drivers in first-seen
  order. The value of a label is \<^verbatim>\<open>sum(positions) / len(positions)\<close> over the positions
  of all results of that driver: the float nearest to their arithmetic mean. For the
  positions 1, 3 and 2 it is the float of 2.
\<close>

theorem average_finish_is_mean:
  "(average_finish_series B d = Inr (ls, vs) \<longleftrightarrow>
     (\<exists>rs ks ps avgs. all_results d = Inr rs \<and>
        map family_name rs = map Inr ks \<and> map (position_of B) rs = map Inr ps \<and>
        list_all py_hashable ks \<and> ls = first_seen ks \<and>
        map (\<lambda>k. average B (positions_for (zip ks ps) k)) ls = map Inr avgs \<and>
        vs = map PyFloat avgs)) \<and>
   (qs \<noteq> [] \<longrightarrow>
      average B qs =
        (case float_of_rat B (of_int (sum_list qs) / of_nat (length qs)) of
           None \<Rightarrow> Inl OverflowError | Some x \<Rightarrow> Inr x)) \<and>
   average B [1, 3, 2] =
     (case float_of_rat B 2 of None \<Rightarrow> Inl OverflowError | Some x \<Rightarrow> Inr x)"
proof -
  have "average_finish_series B d = Inr (ls, vs) \<longleftrightarrow>
     (\<exists>rs ks ps avgs. all_results d = Inr rs \<and>
        map family_name rs = map Inr ks \<and> map (position_of B) rs = map Inr ps \<and>
        list_all py_hashable ks \<and> ls = first_seen ks \<and>
        map (\<lambda>k. average B (positions_for (zip ks ps) k)) ls = map Inr avgs \<and>
        vs = map PyFloat avgs)" (is "?L = ?R")
  proof
    assume ?L
    then obtain obs avgs where o: "finish_observations B d = Inr obs"
      "ls = first_seen (map fst obs)"
      "map_err (average B) (map (positions_for obs) ls) = Inr avgs" "vs = map PyFloat avgs"
      unfolding average_finish_series_char by blast
    from o(1) obtain rs where r: "all_results d = Inr rs"
      "map family_name rs = map Inr (map fst obs)"
      "map (position_of B) rs = map Inr (map snd obs)"
      "list_all py_hashable (map fst obs)"
      unfolding finish_observations_char by blast
    have z: "zip (map fst obs) (map snd obs) = obs"
      by (simp add: zip_map_fst_snd)
    from o(3) have "map (\<lambda>k. average B (positions_for obs k)) ls = map Inr avgs"
      by (simp add: map_err_Inr_iff comp_def)
    with o r z show ?R
      by (intro exI[of _ rs] exI[of _ "map fst obs"] exI[of _ "map snd obs"] exI[of _ avgs])
        simp
  next
    assume ?R
    then obtain rs ks ps avgs where r: "all_results d = Inr rs"
      "map family_name rs = map Inr ks" "map (position_of B) rs = map Inr ps"
      "list_all py_hashable ks" "ls = first_seen ks"
      "map (\<lambda>k. average B (positions_for (zip ks ps) k)) ls = map Inr avgs"
      "vs = map PyFloat avgs"
      by blast
    from r(2,3) have "length ks = length ps" by (metis length_map)
    then have fs: "map fst (zip ks ps) = ks" "map snd (zip ks ps) = ps" by simp_all
    with r have "finish_observations B d = Inr (zip ks ps)"
      unfolding finish_observations_char by auto
    moreover from r(6)
    have "map_err (average B) (map (positions_for (zip ks ps)) ls) = Inr avgs"
      by (simp add: map_err_Inr_iff comp_def)
    ultimately show ?L
      unfolding average_finish_series_char using r(5,7) fs
      by (intro exI[of _ "zip ks ps"] exI[of _ avgs]) simp
  qed
  moreover have "average B [1, 3, 2] =
      (case float_of_rat B 2 of None \<Rightarrow> Inl OverflowError | Some x \<Rightarrow> Inr x)"
    by (simp add: average_def py_truediv_def)
  ultimately show ?thesis
    using average_mean by blast
qed

theorem average_finish_is_mean_witness:
  "average_finish_series plain_builtins example_data =
     Inr ([JStr ''Hamilton'', JStr ''Verstappen'', JStr ''Bottas'', JStr ''Norris''],
          [PyFloat 2, PyFloat (4 / 3), PyFloat (5 / 2), PyFloat (7 / 2)]) \<and>
   (\<exists>rs ks ps avgs. all_results example_data = Inr rs \<and>
      map family_name rs = map Inr ks \<and>
      map (position_of plain_builtins) rs = map Inr ps \<and>
      list_all py_hashable ks \<and>
      [JStr ''Hamilton'', JStr ''Verstappen'', JStr ''Bottas'', JStr ''Norris''] =
        first_seen ks \<and>
      map (\<lambda>k. average plain_builtins (positions_for (zip ks ps) k))
          [JStr ''Hamilton'', JStr ''Verstappen'', JStr ''Bottas'', JStr ''Norris''] =
        map Inr avgs \<and>
      [PyFloat 2, PyFloat (4 / 3), PyFloat (5 / 2), PyFloat (7 / 2)] = map PyFloat avgs) \<and>
   [1, 3, 2 :: int] \<noteq> [] \<and>
   average plain_builtins [1, 3, 2] = Inr 2"
proof -
  have m: "average plain_builtins [1, 3, 2] = Inr 2"
    using average_finish_is_mean[THEN conjunct2, THEN conjunct2, of plain_builtins]
    by (simp add: plain_builtins_def)
  show ?thesis
    using average_finish_is_mean[THEN conjunct1, THEN iffD1, OF average_example]
      average_example m
    by blast
qed

lemma map_eq_nth:
  "map f xs = map g ys \<Longrightarrow> i < length ys \<Longrightarrow> f (xs ! i) = g (ys ! i)"
  by (metis length_map nth_map)

lemma standings_aligned:
  assumes "map name es = map Inr ls" "map (points_of B) es = map Inr xs"
  shows "length ls = length (map PyFloat xs) \<and>
    (\<forall>i<length ls. name (es ! i) = Inr (ls ! i) \<and>
       (\<exists>x. points_of B (es ! i) = Inr x \<and> map PyFloat xs ! i = PyFloat x))"
proof -
  from assms(1) have l1: "length ls = length es"
    using length_map[of name es] length_map[of Inr ls] by simp
  from assms(2) have l2: "length xs = length es"
    using length_map[of "points_of B" es] length_map[of Inr xs] by simp
  have n: "name (es ! i) = Inr (ls ! i)" if "i < length ls" for i
    using map_eq_nth[OF assms(1) that] .
  have p: "points_of B (es ! i) = Inr (xs ! i) \<and> map PyFloat xs ! i = PyFloat (xs ! i)"
    if "i < length ls" for i
  proof -
    from that l1 l2 have i: "i < length xs" by simp
    from map_eq_nth[OF assms(2) i] i show ?thesis by simp
  qed
  from l1 l2 n p show ?thesis by auto
qed

text \<open>
  C9: every series that one of the five aggregations returns has as many labels as
  values, and the value at an index is the aggregate of the label at that index: the
  points of the entry the label comes from, the average of the label's positions, the
  number of races the label has won, or the number of counted results of the label.
\<close>

theorem chart_series_aligned:
  "(total_points_series B d = Inr (ls, vs) \<longrightarrow>
      length ls = length vs \<and>
      (\<exists>es. driver_standings d = Inr es \<and>
         (\<forall>i<length ls. family_name (es ! i) = Inr (ls ! i) \<and>
            (\<exists>x. points_of B (es ! i) = Inr x \<and> vs ! i = PyFloat x)))) \<and>
   (average_finish_series B d = Inr (ls, vs) \<longrightarrow>
      length ls = length vs \<and>
      (\<exists>obs. finish_observations B d = Inr obs \<and>
         (\<forall>i<length ls.
            \<exists>x. average B (positions_for obs (ls ! i)) = Inr x \<and> vs ! i = PyFloat x))) \<and>
   (most_wins_series d = Inr (ls, vs) \<longrightarrow>
      length ls = length vs \<and>
      (\<exists>ws. winners d = Inr ws \<and>
         (\<forall>i<length ls. vs ! i = PyInt (occurrences ws (ls ! i))))) \<and>
   (constructor_series B d = Inr (ls, vs) \<longrightarrow>
      length ls = length vs \<and>
      (\<exists>es. constructor_standings d = Inr es \<and>
         (\<forall>i<length ls. constructor_name (es ! i) = Inr (ls ! i) \<and>
            (\<exists>x. points_of B (es ! i) = Inr x \<and> vs ! i = PyFloat x)))) \<and>
   (podium_series B d = Inr (ls, vs) \<longrightarrow>
      length ls = length vs \<and>
      (\<exists>obs. podium_observations B d = Inr obs \<and>
         (\<forall>i<length ls. vs ! i = PyInt (occurrences (counted obs) (ls ! i)))))"
proof (intro conjI impI)
  assume "total_points_series B d = Inr (ls, vs)"
  then obtain es xs where e: "driver_standings d = Inr es"
    "map family_name es = map Inr ls" "map (points_of B) es = map Inr xs"
    "vs = map PyFloat xs"
    unfolding total_points_series_char by blast
  from standings_aligned[OF e(2,3)] e(1,4)
  show "length ls = length vs"
    "\<exists>es. driver_standings d = Inr es \<and>
       (\<forall>i<length ls. family_name (es ! i) = Inr (ls ! i) \<and>
          (\<exists>x. points_of B (es ! i) = Inr x \<and> vs ! i = PyFloat x))"
    by blast+
next
  assume "constructor_series B d = Inr (ls, vs)"
  then obtain es xs where e: "constructor_standings d = Inr es"
    "map constructor_name es = map Inr ls" "map (points_of B) es = map Inr xs"
    "vs = map PyFloat xs"
    unfolding constructor_series_char by blast
  from standings_aligned[OF e(2,3)] e(1,4)
  show "length ls = length vs"
    "\<exists>es. constructor_standings d = Inr es \<and>
       (\<forall>i<length ls. constructor_name (es ! i) = Inr (ls ! i) \<and>
          (\<exists>x. points_of B (es ! i) = Inr x \<and> vs ! i = PyFloat x))"
    by blast+
next
  assume "average_finish_series B d = Inr (ls, vs)"
  then obtain obs avgs where o: "finish_observations B d = Inr obs"
    "map_err (average B) (map (positions_for obs) ls) = Inr avgs" "vs = map PyFloat avgs"
    unfolding average_finish_series_char by blast
  from o(2) have len: "length avgs = length ls"
    by (simp add: map_err_length)
  with o(3) show "length ls = length vs" by simp
  have "\<exists>x. average B (positions_for obs (ls ! i)) = Inr x \<and> vs ! i = PyFloat x"
    if "i < length ls" for i
  proof -
    from that have "average B (positions_for obs (ls ! i)) = Inr (avgs ! i)"
      using map_err_nth[OF o(2), of i] by simp
    moreover from that len o(3) have "vs ! i = PyFloat (avgs ! i)" by simp
    ultimately show ?thesis by blast
  qed
  with o(1) show "\<exists>obs. finish_observations B d = Inr obs \<and>
      (\<forall>i<length ls.
         \<exists>x. average B (positions_for obs (ls ! i)) = Inr x \<and> vs ! i = PyFloat x)"
    by blast
next
  assume "most_wins_series d = Inr (ls, vs)"
  then obtain ws where w: "winners d = Inr ws"
    "vs = map (\<lambda>k. PyInt (occurrences ws k)) ls"
    unfolding most_wins_series_char by blast
  then show "length ls = length vs"
    "\<exists>ws. winners d = Inr ws \<and> (\<forall>i<length ls. vs ! i = PyInt (occurrences ws (ls ! i)))"
    by auto
next
  assume "podium_series B d = Inr (ls, vs)"
  then obtain obs where o: "podium_observations B d = Inr obs"
    "vs = map (\<lambda>k. PyInt (occurrences (counted obs) k)) ls"
    unfolding podium_series_char by blast
  then show "length ls = length vs"
    "\<exists>obs. podium_observations B d = Inr obs \<and>
       (\<forall>i<length ls. vs ! i = PyInt (occurrences (counted obs) (ls ! i)))"
    by auto
qed

theorem chart_series_aligned_witness:
  "(total_points_series plain_builtins example_data =
      Inr ([JStr ''Verstappen'', JStr ''Hamilton''], [PyFloat 395, PyFloat 387]) \<and>
    (\<exists>es. driver_standings example_data = Inr es \<and>
       (\<forall>i<length [JStr ''Verstappen'', JStr ''Hamilton''].
          family_name (es ! i) = Inr ([JStr ''Verstappen'', JStr ''Hamilton''] ! i) \<and>
          (\<exists>x. points_of plain_builtins (es ! i) = Inr x \<and>
             [PyFloat 395, PyFloat 387] ! i = PyFloat x)))) \<and>
   (average_finish_series plain_builtins example_data =
      Inr ([JStr ''Hamilton'', JStr ''Verstappen'', JStr ''Bottas'', JStr ''Norris''],
           [PyFloat 2, PyFloat (4 / 3), PyFloat (5 / 2), PyFloat (7 / 2)]) \<and>
    (\<exists>obs. finish_observations plain_builtins example_data = Inr obs \<and>
       (\<forall>i<length [JStr ''Hamilton'', JStr ''Verstappen'', JStr ''Bottas'', JStr ''Norris''].
          \<exists>x. average plain_builtins (positions_for obs
                 ([JStr ''Hamilton'', JStr ''Verstappen'', JStr ''Bottas'', JStr ''Norris''] ! i))
                = Inr x \<and>
              [PyFloat 2, PyFloat (4 / 3), PyFloat (5 / 2), PyFloat (7 / 2)] ! i = PyFloat x))) \<and>
   ((most_wins_series example_data :: py_error + json list \<times> rat pynum list) =
      Inr ([JStr ''Hamilton'', JStr ''Verstappen''], [PyInt 1, PyInt 2]) \<and>
    (\<exists>ws. winners example_data = Inr ws \<and>
       (\<forall>i<length [JStr ''Hamilton'', JStr ''Verstappen''].
          [PyInt 1, PyInt 2 :: rat pynum] ! i =
            PyInt (occurrences ws ([JStr ''Hamilton'', JStr ''Verstappen''] ! i))))) \<and>
   (constructor_series plain_builtins example_data =
      Inr ([JStr ''Mercedes'', JStr ''Red Bull''], [PyFloat 613, PyFloat 585]) \<and>
    (\<exists>es. constructor_standings example_data = Inr es \<and>
       (\<forall>i<length [JStr ''Mercedes'', JStr ''Red Bull''].
          constructor_name (es ! i) = Inr ([JStr ''Mercedes'', JStr ''Red Bull''] ! i) \<and>
          (\<exists>x. points_of plain_builtins (es ! i) = Inr x \<and>
             [PyFloat 613, PyFloat 585] ! i = PyFloat x)))) \<and>
   (podium_series plain_builtins example_data =
      Inr ([JStr ''Hamilton'', JStr ''Verstappen'', JStr ''Bottas'', JStr ''Norris''],
           [PyInt 3, PyInt 3, PyInt 2, PyInt 1]) \<and>
    (\<exists>obs. podium_observations plain_builtins example_data = Inr obs \<and>
       (\<forall>i<length [JStr ''Hamilton'', JStr ''Verstappen'', JStr ''Bottas'', JStr ''Norris''].
          [PyInt 3, PyInt 3, PyInt 2, PyInt 1 :: rat pynum] ! i =
            PyInt (occurrences (counted obs)
              ([JStr ''Hamilton'', JStr ''Verstappen'', JStr ''Bottas'', JStr ''Norris''] ! i)))))"
proof (intro conjI)
  show "\<exists>es. driver_standings example_data = Inr es \<and>
       (\<forall>i<length [JStr ''Verstappen'', JStr ''Hamilton''].
          family_name (es ! i) = Inr ([JStr ''Verstappen'', JStr ''Hamilton''] ! i) \<and>
          (\<exists>x. points_of plain_builtins (es ! i) = Inr x \<and>
             [PyFloat 395, PyFloat 387] ! i = PyFloat x))"
    using chart_series_aligned[of plain_builtins example_data
        "[JStr ''Verstappen'', JStr ''Hamilton'']" "[PyFloat 395, PyFloat 387]",
        THEN conjunct1, rule_format, OF total_points_example]
    by (rule conjunct2)
  show "\<exists>obs. finish_observations plain_builtins example_data = Inr obs \<and>
       (\<forall>i<length [JStr ''Hamilton'', JStr ''Verstappen'', JStr ''Bottas'', JStr ''Norris''].
          \<exists>x. average plain_builtins (positions_for obs
                 ([JStr ''Hamilton'', JStr ''Verstappen'', JStr ''Bottas'', JStr ''Norris''] ! i))
                = Inr x \<and>
              [PyFloat 2, PyFloat (4 / 3), PyFloat (5 / 2), PyFloat (7 / 2)] ! i = PyFloat x)"
    using chart_series_aligned[of plain_builtins example_data
        "[JStr ''Hamilton'', JStr ''Verstappen'', JStr ''Bottas'', JStr ''Norris'']"
        "[PyFloat 2, PyFloat (4 / 3), PyFloat (5 / 2), PyFloat (7 / 2)]",
        THEN conjunct2, THEN conjunct1, rule_format, OF average_example]
    by (rule conjunct2)
  show "\<exists>ws. winners example_data = Inr ws \<and>
       (\<forall>i<length [JStr ''Hamilton'', JStr ''Verstappen''].
          [PyInt 1, PyInt 2 :: rat pynum] ! i =
            PyInt (occurrences ws ([JStr ''Hamilton'', JStr ''Verstappen''] ! i)))"
    using chart_series_aligned[of plain_builtins example_data
        "[JStr ''Hamilton'', JStr ''Verstappen'']" "[PyInt 1, PyInt 2]",
        THEN conjunct2, THEN conjunct2, THEN conjunct1, rule_format, OF most_wins_example]
    by (rule conjunct2)
  show "\<exists>es. constructor_standings example_data = Inr es \<and>
       (\<forall>i<length [JStr ''Mercedes'', JStr ''Red Bull''].
          constructor_name (es ! i) = Inr ([JStr ''Mercedes'', JStr ''Red Bull''] ! i) \<and>
          (\<exists>x. points_of plain_builtins (es ! i) = Inr x \<and>
             [PyFloat 613, PyFloat 585] ! i = PyFloat x))"
    using chart_series_aligned[of plain_builtins example_data
        "[JStr ''Mercedes'', JStr ''Red Bull'']" "[PyFloat 613, PyFloat 585]",
        THEN conjunct2, THEN conjunct2, THEN conjunct2, THEN conjunct1, rule_format,
        OF constructor_example]
    by (rule conjunct2)
  show "\<exists>obs. podium_observations plain_builtins example_data = Inr obs \<and>
       (\<forall>i<length [JStr ''Hamilton'', JStr ''Verstappen'', JStr ''Bottas'', JStr ''Norris''].
          [PyInt 3, PyInt 3, PyInt 2, PyInt 1 :: rat pynum] ! i =
            PyInt (occurrences (counted obs)
              ([JStr ''Hamilton'', JStr ''Verstappen'', JStr ''Bottas'', JStr ''Norris''] ! i)))"
    using chart_series_aligned[of plain_builtins example_data
        "[JStr ''Hamilton'', JStr ''Verstappen'', JStr ''Bottas'', JStr ''Norris'']"
        "[PyInt 3, PyInt 3, PyInt 2, PyInt 1]",
        THEN conjunct2, THEN conjunct2, THEN conjunct2, THEN conjunct2, rule_format,
        OF podium_example]
    by (rule conjunct2)
qed (rule total_points_example average_example most_wins_example constructor_example
    podium_example)+

text \<open>
  C10: in a series returned by one of the three aggregations over the results payload
  (average finish position, most wins, podium finishes) the labels are pairwise
  distinct, and no two of them are equal as dict keys.
\<close>

theorem result_labels_distinct:
  "(average_finish_series B d = Inr (ls, vs) \<longrightarrow> distinct ls \<and> distinct (map py_key ls)) \<and>
   (most_wins_series d = Inr (ls, vs) \<longrightarrow> distinct ls \<and> distinct (map py_key ls)) \<and>
   (podium_series B d = Inr (ls, vs) \<longrightarrow> distinct ls \<and> distinct (map py_key ls))"
proof -
  have fs: "distinct (first_seen ks) \<and> distinct (map py_key (first_seen ks))" for ks
    using distinct_first_seen[of ks] by (simp add: distinct_map)
  have "average_finish_series B d = Inr (ls, vs) \<longrightarrow> (\<exists>ks. ls = first_seen ks)"
    unfolding average_finish_series_char by blast
  moreover have "most_wins_series d = Inr (ls, vs) \<longrightarrow> (\<exists>ks. ls = first_seen ks)"
    unfolding most_wins_series_char by blast
  moreover have "podium_series B d = Inr (ls, vs) \<longrightarrow> (\<exists>ks. ls = first_seen ks)"
    unfolding podium_series_char by blast
  ultimately show ?thesis
    using fs by blast
qed

theorem result_labels_distinct_witness:
  "average_finish_series plain_builtins example_data =
      Inr ([JStr ''Hamilton'', JStr ''Verstappen'', JStr ''Bottas'', JStr ''Norris''],
           [PyFloat 2, PyFloat (4 / 3), PyFloat (5 / 2), PyFloat (7 / 2)]) \<and>
   (most_wins_series example_data :: py_error + json list \<times> rat pynum list) =
      Inr ([JStr ''Hamilton'', JStr ''Verstappen''], [PyInt 1, PyInt 2]) \<and>
   podium_series plain_builtins example_data =
      Inr ([JStr ''Hamilton'', JStr ''Verstappen'', JStr ''Bottas'', JStr ''Norris''],
           [PyInt 3, PyInt 3, PyInt 2, PyInt 1]) \<and>
   distinct [JStr ''Hamilton'', JStr ''Verstappen'', JStr ''Bottas'', JStr ''Norris''] \<and>
   distinct [JStr ''Hamilton'', JStr ''Verstappen'']"
  using
    result_labels_distinct[of plain_builtins example_data
      "[JStr ''Hamilton'', JStr ''Verstappen'', JStr ''Bottas'', JStr ''Norris'']"
      "[PyFloat 2, PyFloat (4 / 3), PyFloat (5 / 2), PyFloat (7 / 2)]",
      THEN conjunct1, rule_format, OF average_example, THEN conjunct1]
    result_labels_distinct[of plain_builtins example_data
      "[JStr ''Hamilton'', JStr ''Verstappen'']" "[PyInt 1, PyInt 2]",
      THEN conjunct2, THEN conjunct1, rule_format, OF most_wins_example, THEN conjunct1]
    result_labels_distinct[of plain_builtins example_data
      "[JStr ''Hamilton'', JStr ''Verstappen'', JStr ''Bottas'', JStr ''Norris'']"
      "[PyInt 3, PyInt 3, PyInt 2, PyInt 1]",
      THEN conjunct2, THEN conjunct2, rule_format, OF podium_example, THEN conjunct1]
    average_example most_wins_example podium_example
  by (intro conjI)

section \<open>Errors during an aggregation\<close>

lemma member_map_Inr:
  assumes "map f xs = map Inr ys" "x \<in> set xs"
  shows "\<exists>y. f x = Inr y"
proof -
  from assms(2) have "f x \<in> set (map f xs)" by simp
  with assms(1) have "f x \<in> set (map Inr ys)" by simp
  then show ?thesis by auto
qed

lemma position_missing:
  "getitem r ''position'' = Inl KeyError \<Longrightarrow> position_of B r = Inl KeyError"
  by (simp add: position_of_def)

lemma position_not_numeric:
  "getitem r ''position'' = Inr (JStr p) \<Longrightarrow> int_of_str B p = None \<Longrightarrow>
     position_of B r = Inl ValueError"
  by (simp add: position_of_def py_int_def)

lemma position_error_average:
  assumes "all_results d = Inr rs" "r \<in> set rs" "position_of B r = Inl e"
  shows "\<exists>e'. average_finish_series B d = Inl e'"
proof (cases "average_finish_series B d")
  case (Inl e')
  then show ?thesis by blast
next
  case (Inr ser)
  then have "average_finish_series B d = Inr (fst ser, snd ser)" by simp
  then obtain obs where "finish_observations B d = Inr obs"
    unfolding average_finish_series_char by blast
  with assms(1) have "map (position_of B) rs = map Inr (map snd obs)"
    unfolding finish_observations_char by auto
  from member_map_Inr[OF this assms(2)] assms(3) show ?thesis by simp
qed

lemma position_error_podium:
  assumes "all_results d = Inr rs" "r \<in> set rs" "position_of B r = Inl e"
  shows "\<exists>e'. podium_series B d = Inl e'"
proof (cases "podium_series B d")
  case (Inl e')
  then show ?thesis by blast
next
  case (Inr ser)
  then have "podium_series B d = Inr (fst ser, snd ser)" by simp
  then obtain obs where "podium_observations B d = Inr obs"
    unfolding podium_series_char by blast
  with assms(1) have "map (podium_observation B) rs = map Inr obs"
    by (simp add: podium_observations_def map_err_Inr_iff)
  from member_map_Inr[OF this assms(2)] obtain ob where "podium_observation B r = Inr ob"
    by blast
  then obtain p where "position_of B r = Inr p"
    unfolding podium_observation_char by blast
  with assms(3) show ?thesis by simp
qed

lemma update_chart_average_raises:
  "data s \<noteq> [] \<Longrightarrow> chart_type s = ''Average Finish Position by Driver'' \<Longrightarrow>
     average_finish_series B (data s) = Inl e \<Longrightarrow>
     update_chart B s = (s\<lparr>ax := empty_axes\<rparr>, Some e)"
  by (simp add: update_chart_def dispatch_def plot_average_finish_position_by_driver_def
      plot_def Let_def)

lemma update_chart_podium_raises:
  "data s \<noteq> [] \<Longrightarrow> chart_type s = ''Podium Finishes by Driver'' \<Longrightarrow>
     podium_series B (data s) = Inl e \<Longrightarrow>
     update_chart B s = (s\<lparr>ax := empty_axes\<rparr>, Some e)"
  by (simp add: update_chart_def dispatch_def plot_podium_finishes_by_driver_def
      plot_def Let_def)

lemma bad_position_average:
  "average_finish_series plain_builtins bad_position_data = Inl ValueError"
  by (simp add: average_finish_series_def races_of_def finish_positions_def race_results_def
      finish_observation_def bad_position_data_def results_payload_def result_def
      data_get_def getitem_def py_iter_def family_name_def position_of_def py_int_def
      plain_builtins_def decimal_def bind_err_def)

lemma bad_position_results:
  "all_results bad_position_data = Inr [result ''Hamilton'' ''abc'']"
  by (simp add: all_results_def races_of_def race_results_def bad_position_data_def
      results_payload_def data_get_def getitem_def py_iter_def bind_err_def)

text \<open>
  C8, as the spec states it, fails: with the position \<^verbatim>\<open>abc\<close> in the results payload
  and "Average Finish Position by Driver" selected, the \<^verbatim>\<open>ValueError\<close> of \<^verbatim>\<open>int\<close>
  leaves \<^verbatim>\<open>update_chart\<close>; the method catches nothing and shows no message box.
\<close>

theorem position_error_not_reported:
  "update_chart plain_builtins
     ((init_app :: rat app)\<lparr>data := bad_position_data,
        chart_type := ''Average Finish Position by Driver''\<rparr>) =
     ((init_app :: rat app)\<lparr>data := bad_position_data,
        chart_type := ''Average Finish Position by Driver'', ax := empty_axes\<rparr>,
      Some ValueError) \<and>
   trace (fst (update_chart plain_builtins
     ((init_app :: rat app)\<lparr>data := bad_position_data,
        chart_type := ''Average Finish Position by Driver''\<rparr>))) = []"
proof -
  have ne: "bad_position_data \<noteq> []"
    by (simp add: bad_position_data_def)
  show ?thesis
    by (simp add: update_chart_def dispatch_def plot_average_finish_position_by_driver_def
        plot_def Let_def bad_position_average ne init_app_def)
qed

section \<open>The first error of a loop\<close>

lemma fold_err_append:
  "fold_err f (xs @ ys) s = bind_err (fold_err f xs s) (fold_err f ys)"
proof (induction xs arbitrary: s)
  case Nil
  show ?case by simp
next
  case (Cons x xs)
  show ?case
    by (cases "f x s") (simp_all add: Cons.IH)
qed

lemma fold_err_nested_flat:
  "map_err r xs = Inr zss \<Longrightarrow>
     fold_err (\<lambda>x s. bind_err (r x) (\<lambda>zs. fold_err f zs s)) xs s = fold_err f (concat zss) s"
proof (induction xs arbitrary: zss s)
  case Nil
  then show ?case by simp
next
  case (Cons x xs)
  from Cons.prems obtain zs zss' where z: "r x = Inr zs" "map_err r xs = Inr zss'"
    "zss = zs # zss'"
    by (auto split: sum.splits)
  show ?case
  proof (cases "fold_err f zs s")
    case (Inl e)
    with z show ?thesis by (simp add: fold_err_append)
  next
    case (Inr s')
    with z Cons.IH[OF z(2), of s'] show ?thesis by (simp add: fold_err_append)
  qed
qed

lemma fold_err_first_error:
  "map_err g pre = Inr ys \<Longrightarrow> g x = Inl e \<Longrightarrow>
     fold_err (\<lambda>x s. bind_err (g x) (\<lambda>y. Inr (h y s))) (pre @ x # post) s = Inl e"
proof (induction pre arbitrary: ys s)
  case Nil
  then show ?case by simp
next
  case (Cons p pre)
  from Cons.prems(1) obtain y ys' where "g p = Inr y" "map_err g pre = Inr ys'"
    by (auto split: sum.splits)
  with Cons.IH[OF _ Cons.prems(2)] show ?case by simp
qed

lemma all_results_Inr:
  "all_results d = Inr rs \<Longrightarrow>
     \<exists>races rss. races_of d = Inr races \<and> map_err race_results races = Inr rss \<and>
       rs = concat rss"
  unfolding all_results_def bind_err_Inr_iff by auto

lemma finish_observation_position_error:
  "family_name r = Inr k \<Longrightarrow> position_of B r = Inl e \<Longrightarrow> finish_observation B r = Inl e"
  by (simp add: finish_observation_def)

lemma podium_observation_position_error:
  "position_of B r = Inl e \<Longrightarrow> podium_observation B r = Inl e"
  by (simp add: podium_observation_def)

lemma average_first_error:
  assumes "all_results d = Inr (pre @ r # post)"
    and "map_err (finish_observation B) pre = Inr obs"
    and "finish_observation B r = Inl e"
  shows "average_finish_series B d = Inl e"
proof -
  from all_results_Inr[OF assms(1)] obtain races rss where r: "races_of d = Inr races"
    "map_err race_results races = Inr rss" "pre @ r # post = concat rss"
    by blast
  have "finish_positions B races =
      fold_err (\<lambda>result fp. bind_err (finish_observation B result)
        (\<lambda>ob. Inr (record_position ob fp))) (concat rss) []"
    unfolding finish_positions_def by (rule fold_err_nested_flat[OF r(2)])
  also have "\<dots> = Inl e"
    unfolding r(3)[symmetric] by (rule fold_err_first_error[OF assms(2,3)])
  finally show ?thesis
    using r(1) by (simp add: average_finish_series_def)
qed

lemma podium_first_error:
  assumes "all_results d = Inr (pre @ r # post)"
    and "map_err (podium_observation B) pre = Inr obs"
    and "podium_observation B r = Inl e"
  shows "podium_series B d = Inl e"
proof -
  from all_results_Inr[OF assms(1)] obtain races rss where r: "races_of d = Inr races"
    "map_err race_results races = Inr rss" "pre @ r # post = concat rss"
    by blast
  have tally: "(case ob of None \<Rightarrow> Inr c | Some k \<Rightarrow> Inr (count_up k c)) =
      (Inr (case ob of None \<Rightarrow> c | Some k \<Rightarrow> count_up k c) :: py_error + (json \<times> int) list)"
    for ob c
    by (cases ob) simp_all
  have "podium_counts B races =
      fold_err (\<lambda>result counts. bind_err (podium_observation B result)
        (\<lambda>ob. Inr (case ob of None \<Rightarrow> counts | Some k \<Rightarrow> count_up k counts)))
        (concat rss) []"
    unfolding podium_counts_def tally by (rule fold_err_nested_flat[OF r(2)])
  also have "\<dots> = Inl e"
    unfolding r(3)[symmetric] by (rule fold_err_first_error[OF assms(2,3)])
  finally show ?thesis
    using r(1) by (simp add: podium_series_def)
qed

lemma position_error_kinds:
  assumes "position_of B r = Inl e"
  shows "(getitem r ''position'' = Inl KeyError \<longrightarrow> e = KeyError) \<and>
    (\<forall>p. getitem r ''position'' = Inr (JStr p) \<longrightarrow> int_of_str B p = None \<longrightarrow> e = ValueError) \<and>
    (getitem r ''position'' = Inr JNull \<longrightarrow> e = TypeError)"
  using assms by (auto simp: position_of_def py_int_def)

lemma late_bad_position_results:
  "all_results late_bad_position_data =
     Inr ([result ''Verstappen'' ''1''] @ result ''Hamilton'' ''abc'' # [result ''Bottas'' ''2''])"
  by (simp add: all_results_def races_of_def race_results_def late_bad_position_data_def
      results_payload_def data_get_def getitem_def py_iter_def bind_err_def)

lemma missing_position_results:
  "all_results missing_position_data =
     Inr ([result ''Verstappen'' ''1''] @ result_without_position ''Hamilton'' #
          [result ''Bottas'' ''3''])"
  by (simp add: all_results_def races_of_def race_results_def missing_position_data_def
      results_payload_def data_get_def getitem_def py_iter_def bind_err_def)

lemma finish_observation_example:
  "map_err (finish_observation plain_builtins) [result ''Verstappen'' ''1''] =
     Inr [(JStr ''Verstappen'', 1)]"
  by (simp add: finish_observation_def family_name_def position_of_def result_def getitem_def
      py_int_def plain_builtins_def decimal_def as_key_def py_hashable_def bind_err_def)

lemma podium_observation_example:
  "map_err (podium_observation plain_builtins) [result ''Verstappen'' ''1''] =
     Inr [Some (JStr ''Verstappen'')]"
  by (simp add: podium_observation_def family_name_def position_of_def result_def getitem_def
      py_int_def plain_builtins_def decimal_def as_key_def py_hashable_def bind_err_def)

lemma position_abc:
  "position_of plain_builtins (result ''Hamilton'' ''abc'') = Inl ValueError"
  by (simp add: position_of_def result_def getitem_def py_int_def plain_builtins_def
      decimal_def bind_err_def)

lemma position_absent:
  "position_of plain_builtins (result_without_position ''Hamilton'') = Inl KeyError"
  by (simp add: position_of_def result_without_position_def getitem_def bind_err_def)

lemma family_name_result: "family_name (result name pos) = Inr (JStr name)"
  by (simp add: family_name_def result_def getitem_def bind_err_def)

text \<open>
  C8, amended: when "Average Finish Position by Driver" or "Podium Finishes by Driver"
  is selected and the position of some result of the payload cannot be read or parsed,
  the aggregation raises and the exception leaves \<^verbatim>\<open>update_chart\<close> uncaught: the axes
  have been cleared, nothing is drawn (the canvas is as before), and the program shows
  no message box. When no result before that one raises (and, on the average chart,
  the driver lookup of the result itself, which runs first, succeeds), the exception
  that leaves \<^verbatim>\<open>update_chart\<close> is the error of that position: \<^verbatim>\<open>KeyError\<close> for a
  missing \<^verbatim>\<open>position\<close> key, \<^verbatim>\<open>ValueError\<close> for a string that \<^verbatim>\<open>int\<close> rejects,
  \<^verbatim>\<open>TypeError\<close> for \<^verbatim>\<open>null\<close>.
\<close>

theorem position_error_leaves_update_chart:
  assumes "data s \<noteq> []"
    and "chart_type s = ''Average Finish Position by Driver'' \<or>
         chart_type s = ''Podium Finishes by Driver''"
    and "all_results (data s) = Inr (pre @ r # post)"
    and "position_of B r = Inl e"
  shows "(\<exists>e'. update_chart B s = (s\<lparr>ax := empty_axes\<rparr>, Some e')) \<and>
    trace (fst (update_chart B s)) = trace s \<and>
    canvas (fst (update_chart B s)) = canvas s \<and>
    (chart_type s = ''Average Finish Position by Driver'' \<longrightarrow>
       (\<exists>obs. map_err (finish_observation B) pre = Inr obs) \<longrightarrow>
       (\<exists>k. family_name r = Inr k) \<longrightarrow>
       update_chart B s = (s\<lparr>ax := empty_axes\<rparr>, Some e)) \<and>
    (chart_type s = ''Podium Finishes by Driver'' \<longrightarrow>
       (\<exists>obs. map_err (podium_observation B) pre = Inr obs) \<longrightarrow>
       update_chart B s = (s\<lparr>ax := empty_axes\<rparr>, Some e)) \<and>
    (getitem r ''position'' = Inl KeyError \<longrightarrow> e = KeyError) \<and>
    (\<forall>p. getitem r ''position'' = Inr (JStr p) \<longrightarrow> int_of_str B p = None \<longrightarrow>
       e = ValueError) \<and>
    (getitem r ''position'' = Inr JNull \<longrightarrow> e = TypeError)"
proof -
  have mem: "r \<in> set (pre @ r # post)" by simp
  from assms(2) have "\<exists>e'. update_chart B s = (s\<lparr>ax := empty_axes\<rparr>, Some e')"
  proof
    assume ct: "chart_type s = ''Average Finish Position by Driver''"
    from position_error_average[OF assms(3) mem assms(4)] obtain e'
      where "average_finish_series B (data s) = Inl e'" by blast
    from update_chart_average_raises[OF assms(1) ct this] show ?thesis by blast
  next
    assume ct: "chart_type s = ''Podium Finishes by Driver''"
    from position_error_podium[OF assms(3) mem assms(4)] obtain e'
      where "podium_series B (data s) = Inl e'" by blast
    from update_chart_podium_raises[OF assms(1) ct this] show ?thesis by blast
  qed
  then obtain e' where u: "update_chart B s = (s\<lparr>ax := empty_axes\<rparr>, Some e')" by blast
  then have tc: "trace (fst (update_chart B s)) = trace s"
    "canvas (fst (update_chart B s)) = canvas s"
    by simp_all
  have avg: "update_chart B s = (s\<lparr>ax := empty_axes\<rparr>, Some e)"
    if ct: "chart_type s = ''Average Finish Position by Driver''"
      and pre: "\<exists>obs. map_err (finish_observation B) pre = Inr obs"
      and drv: "\<exists>k. family_name r = Inr k"
  proof -
    from pre obtain obs where obs: "map_err (finish_observation B) pre = Inr obs" by blast
    from drv obtain k where "family_name r = Inr k" by blast
    then have "finish_observation B r = Inl e"
      using assms(4) by (rule finish_observation_position_error)
    from average_first_error[OF assms(3) obs this]
    show ?thesis by (rule update_chart_average_raises[OF assms(1) ct])
  qed
  have pod: "update_chart B s = (s\<lparr>ax := empty_axes\<rparr>, Some e)"
    if ct: "chart_type s = ''Podium Finishes by Driver''"
      and pre: "\<exists>obs. map_err (podium_observation B) pre = Inr obs"
  proof -
    from pre obtain obs where obs: "map_err (podium_observation B) pre = Inr obs" by blast
    have "podium_observation B r = Inl e"
      using assms(4) by (rule podium_observation_position_error)
    from podium_first_error[OF assms(3) obs this]
    show ?thesis by (rule update_chart_podium_raises[OF assms(1) ct])
  qed
  from u tc avg pod position_error_kinds[OF assms(4)] show ?thesis
    by (intro conjI impI allI) blast+
qed

theorem position_error_leaves_update_chart_witness:
  "late_bad_position_data \<noteq> [] \<and>
   all_results late_bad_position_data =
     Inr ([result ''Verstappen'' ''1''] @ result ''Hamilton'' ''abc'' # [result ''Bottas'' ''2'']) \<and>
   position_of plain_builtins (result ''Hamilton'' ''abc'') = Inl ValueError \<and>
   map_err (finish_observation plain_builtins) [result ''Verstappen'' ''1''] =
     Inr [(JStr ''Verstappen'', 1)] \<and>
   family_name (result ''Hamilton'' ''abc'') = Inr (JStr ''Hamilton'') \<and>
   update_chart plain_builtins
     ((init_app :: rat app)\<lparr>data := late_bad_position_data,
        chart_type := ''Average Finish Position by Driver''\<rparr>) =
     ((init_app :: rat app)\<lparr>data := late_bad_position_data,
        chart_type := ''Average Finish Position by Driver'', ax := empty_axes\<rparr>,
      Some ValueError) \<and>
   missing_position_data \<noteq> [] \<and>
   all_results missing_position_data =
     Inr ([result ''Verstappen'' ''1''] @ result_without_position ''Hamilton'' #
          [result ''Bottas'' ''3'']) \<and>
   position_of plain_builtins (result_without_position ''Hamilton'') = Inl KeyError \<and>
   getitem (result_without_position ''Hamilton'') ''position'' = Inl KeyError \<and>
   map_err (podium_observation plain_builtins) [result ''Verstappen'' ''1''] =
     Inr [Some (JStr ''Verstappen'')] \<and>
   update_chart plain_builtins
     ((init_app :: rat app)\<lparr>data := missing_position_data,
        chart_type := ''Podium Finishes by Driver''\<rparr>) =
     ((init_app :: rat app)\<lparr>data := missing_position_data,
        chart_type := ''Podium Finishes by Driver'', ax := empty_axes\<rparr>,
      Some KeyError)"
proof -
  let ?a = "(init_app :: rat app)\<lparr>data := late_bad_position_data,
        chart_type := ''Average Finish Position by Driver''\<rparr>"
  let ?p = "(init_app :: rat app)\<lparr>data := missing_position_data,
        chart_type := ''Podium Finishes by Driver''\<rparr>"
  have ne: "late_bad_position_data \<noteq> []" "missing_position_data \<noteq> []"
    by (simp_all add: late_bad_position_data_def missing_position_data_def)
  have a1: "data ?a \<noteq> []" using ne by simp
  have a2: "chart_type ?a = ''Average Finish Position by Driver'' \<or>
      chart_type ?a = ''Podium Finishes by Driver''" by simp
  have a3: "all_results (data ?a) =
      Inr ([result ''Verstappen'' ''1''] @ result ''Hamilton'' ''abc'' # [result ''Bottas'' ''2''])"
    using late_bad_position_results by simp
  have a5: "chart_type ?a = ''Average Finish Position by Driver''" by simp
  have a6: "\<exists>obs. map_err (finish_observation plain_builtins) [result ''Verstappen'' ''1''] =
      Inr obs"
    using finish_observation_example by blast
  have a7: "\<exists>k. family_name (result ''Hamilton'' ''abc'') = Inr k"
    using family_name_result by blast
  have ua: "update_chart plain_builtins ?a = (?a\<lparr>ax := empty_axes\<rparr>, Some ValueError)"
    using position_error_leaves_update_chart[OF a1 a2 a3 position_abc,
        THEN conjunct2, THEN conjunct2, THEN conjunct2, THEN conjunct1, rule_format,
        OF a5 a6 a7] .
  have p1: "data ?p \<noteq> []" using ne by simp
  have p2: "chart_type ?p = ''Average Finish Position by Driver'' \<or>
      chart_type ?p = ''Podium Finishes by Driver''" by simp
  have p3: "all_results (data ?p) =
      Inr ([result ''Verstappen'' ''1''] @ result_without_position ''Hamilton'' #
           [result ''Bottas'' ''3''])"
    using missing_position_results by simp
  have p5: "chart_type ?p = ''Podium Finishes by Driver''" by simp
  have p6: "\<exists>obs. map_err (podium_observation plain_builtins) [result ''Verstappen'' ''1''] =
      Inr obs"
    using podium_observation_example by blast
  have up: "update_chart plain_builtins ?p = (?p\<lparr>ax := empty_axes\<rparr>, Some KeyError)"
    using position_error_leaves_update_chart[OF p1 p2 p3 position_absent,
        THEN conjunct2, THEN conjunct2, THEN conjunct2, THEN conjunct2, THEN conjunct1,
        rule_format, OF p5 p6] .
  have g: "getitem (result_without_position ''Hamilton'') ''position'' = Inl KeyError"
    by (simp add: result_without_position_def getitem_def)
  from ne late_bad_position_results missing_position_results position_abc position_absent
    finish_observation_example podium_observation_example family_name_result ua up g
  show ?thesis by simp
qed

end
